theory Spec2Isabelle
  imports Complex_Main "HOL-Library.AList" "HOL-Library.Log_Nat"
begin

section \<open>Python values\<close>

text \<open>
  The scan record of \<^verbatim>\<open>app.py\<close> is a dictionary of dictionaries whose fields hold
  values of any Python type, so the model has one type of dynamically typed values.

  \<^item> A float is the rational it denotes, or one of the three special values. A float that
    is given may be any rational; the result of a division or a conversion is rounded to
    the nearest double. Comparison between an int and a float is exact in Python, as here.
  \<^item> A string is a list of characters, one \<open>char\<close> for one code point; the model covers
    the code points below 256.
  \<^item> A dictionary is an association list in insertion order with string keys. Lookup is
    \<open>map_of\<close>; a store replaces the value in place or appends the new key at the end, as
    a Python dict does (\<open>AList.update\<close>).
  \<^item> Dictionaries are values: two sections of one record never share one object.
\<close>

datatype pyfloat = Finite rat | PosInf | NegInf | NaN

datatype pyval =
    VNone
  | VBool bool
  | VInt int
  | VFloat pyfloat
  | VStr string
  | VList "pyval list"
  | VDict "(string \<times> pyval) list"

type_synonym pydict = "(string \<times> pyval) list"

datatype error =
    ValueError string
  | TypeError
  | AttributeError
  | KeyError string
  | IndexError
  | OverflowError
  | ZeroDivisionError

text \<open>Sequencing of fallible steps: the first exception ends the computation.\<close>

definition bind :: "error + 'a \<Rightarrow> ('a \<Rightarrow> error + 'b) \<Rightarrow> error + 'b" where
  "bind m f = (case m of Inl e \<Rightarrow> Inl e | Inr x \<Rightarrow> f x)"

text \<open>\<^verbatim>\<open>isinstance(v, (int, float))\<close>: \<^verbatim>\<open>bool\<close> is a subclass of \<^verbatim>\<open>int\<close>.\<close>

fun is_number :: "pyval \<Rightarrow> bool" where
  "is_number (VBool b) = True"
| "is_number (VInt i) = True"
| "is_number (VFloat f) = True"
| "is_number v = False"

text \<open>\<^verbatim>\<open>isinstance(v, type(d))\<close> for the default values \<open>d\<close> the program uses.\<close>

fun isinstance_type_of :: "pyval \<Rightarrow> pyval \<Rightarrow> bool" where
  "isinstance_type_of VNone VNone = True"
| "isinstance_type_of (VBool b) (VBool d) = True"
| "isinstance_type_of (VBool b) (VInt d) = True"
| "isinstance_type_of (VInt i) (VInt d) = True"
| "isinstance_type_of (VFloat f) (VFloat d) = True"
| "isinstance_type_of (VStr s) (VStr d) = True"
| "isinstance_type_of (VList l) (VList d) = True"
| "isinstance_type_of (VDict m) (VDict d) = True"
| "isinstance_type_of v d = False"

text \<open>\<^verbatim>\<open>d.setdefault(k, v)\<close> on a dict: the value now bound to \<open>k\<close>, and the dict.\<close>

definition setdefault :: "pydict \<Rightarrow> string \<Rightarrow> pyval \<Rightarrow> pyval \<times> pydict" where
  "setdefault d k v =
     (case map_of d k of
        Some x \<Rightarrow> (x, d)
      | None \<Rightarrow> (v, AList.update k v d))"

text \<open>Reading a field of a section of a record, for stating properties.\<close>

definition field :: "pyval \<Rightarrow> string \<Rightarrow> string \<Rightarrow> pyval option" where
  "field r s k =
     (case r of
        VDict d \<Rightarrow> (case map_of d s of Some (VDict sec) \<Rightarrow> map_of sec k | _ \<Rightarrow> None)
      | _ \<Rightarrow> None)"

section \<open>The sanitizer: \<^verbatim>\<open>ensure_defaults\<close>\<close>

definition defaults :: "(string \<times> pydict) list" where
  "defaults =
     [(''basic'', [(''load_time'', VFloat (Finite 0))]),
      (''performance'',
         [(''page_size_kb'', VFloat (Finite 0)), (''requests'', VInt 0), (''dom_depth'', VInt 0)]),
      (''meta'', [(''viewport'', VBool False), (''title'', VStr []), (''description'', VStr [])]),
      (''resources'', [(''stylesheets'', VInt 0)]),
      (''security'', [(''https'', VBool False)]),
      (''accessibility'',
         [(''alt_text_images'', VInt 0), (''aria_attributes'', VInt 0),
          (''lang_attribute'', VBool False)])]"

text \<open>
  The inner loop, on a section that is a dict:
  \<^verbatim>\<open>if key not in sec or not isinstance(sec[key], type(val)): sec[key] = val\<close>.
\<close>

fun fix_fields :: "pydict \<Rightarrow> pydict \<Rightarrow> pydict" where
  "fix_fields [] sec = sec"
| "fix_fields ((key, val) # fields) sec =
     fix_fields fields
       (case map_of sec key of
          None \<Rightarrow> AList.update key val sec
        | Some v \<Rightarrow> if isinstance_type_of v val then sec else AList.update key val sec)"

text \<open>
  \<^verbatim>\<open>key in sec\<close> for a string key: a key of a dict, a substring of a string, an element
  of a list; any other value is not iterable.
\<close>

fun is_substring :: "string \<Rightarrow> string \<Rightarrow> bool" where
  "is_substring p [] = (p = [])"
| "is_substring p (c # s) = (take (length p) (c # s) = p \<or> is_substring p s)"

fun py_contains :: "pyval \<Rightarrow> string \<Rightarrow> error + bool" where
  "py_contains (VDict d) key = Inr (map_of d key \<noteq> None)"
| "py_contains (VStr s) key = Inr (is_substring key s)"
| "py_contains (VList l) key = Inr (VStr key \<in> set l)"
| "py_contains v key = Inl TypeError"

text \<open>
  The inner loop on whatever the section is bound to. On a value that is no dict the
  first iteration raises. When \<^verbatim>\<open>key not in sec\<close> is true, the warning that is logged
  before the assignment formats \<^verbatim>\<open>sec.get(key)\<close>, which a string or a list does not
  have: \<^verbatim>\<open>AttributeError\<close>. When it is false, \<^verbatim>\<open>sec[key]\<close> is run with a string
  index: \<^verbatim>\<open>TypeError\<close>. When \<open>sec\<close> is not iterable, the test itself raises
  \<^verbatim>\<open>TypeError\<close>.
\<close>

definition fix_section :: "pydict \<Rightarrow> pyval \<Rightarrow> error + pyval" where
  "fix_section fields sec =
     (case sec of
        VDict d \<Rightarrow> Inr (VDict (fix_fields fields d))
      | _ \<Rightarrow>
          (case fields of
             [] \<Rightarrow> Inr sec
           | (key, val) # rest \<Rightarrow>
               bind (py_contains sec key) (\<lambda>present.
               if present then Inl TypeError else Inl AttributeError)))"

text \<open>
  The sanitizer and the scorer both walk a table of sections and their default fields:
  \<^verbatim>\<open>for section, defs in table.items(): sec = data.setdefault(section, {})\<close>,
  followed by an inner loop on \<open>sec\<close>, which changes it in place. \<open>each_section\<close> is
  that outer loop, with the inner loop as \<open>body\<close>.
\<close>

fun each_section ::
  "(pydict \<Rightarrow> pyval \<Rightarrow> error + pyval) \<Rightarrow> (string \<times> pydict) list \<Rightarrow> pydict \<Rightarrow> error + pydict" where
  "each_section body [] d = Inr d"
| "each_section body ((section, defs) # rest) d =
     (case setdefault d section (VDict []) of
        (sec, d1) \<Rightarrow>
          bind (body defs sec)
            (\<lambda>sec'. each_section body rest (AList.update section sec' d1)))"

text \<open>
  \<^verbatim>\<open>ensure_defaults(scan_data)\<close>. The record is changed in place and returned; the
  model returns the new record. A value without \<^verbatim>\<open>setdefault\<close> raises
  \<^verbatim>\<open>AttributeError\<close>. Logging is not modelled.
\<close>

definition ensure_defaults :: "pyval \<Rightarrow> error + pyval" where
  "ensure_defaults scan_data =
     (case scan_data of
        VDict d \<Rightarrow> bind (each_section fix_section defaults d) (\<lambda>d'. Inr (VDict d'))
      | _ \<Rightarrow> Inl AttributeError)"

section \<open>Operations on values\<close>

text \<open>Truth value of a value, as \<^verbatim>\<open>if v:\<close> takes it. A NaN is true.\<close>

fun truthy :: "pyval \<Rightarrow> bool" where
  "truthy VNone = False"
| "truthy (VBool b) = b"
| "truthy (VInt i) = (i \<noteq> 0)"
| "truthy (VFloat f) = (f \<noteq> Finite 0)"
| "truthy (VStr s) = (s \<noteq> [])"
| "truthy (VList l) = (l \<noteq> [])"
| "truthy (VDict d) = (d \<noteq> [])"

text \<open>\<^verbatim>\<open>len(v)\<close>: a value without a length raises \<^verbatim>\<open>TypeError\<close>.\<close>

fun py_len :: "pyval \<Rightarrow> error + int" where
  "py_len (VStr s) = Inr (int (length s))"
| "py_len (VList l) = Inr (int (length l))"
| "py_len (VDict d) = Inr (int (length d))"
| "py_len v = Inl TypeError"

text \<open>\<^verbatim>\<open>sec.get(k, dflt)\<close> and \<^verbatim>\<open>sec[k]\<close> with a string key.\<close>

definition py_get :: "pyval \<Rightarrow> string \<Rightarrow> pyval \<Rightarrow> error + pyval" where
  "py_get sec k dflt =
     (case sec of
        VDict d \<Rightarrow> Inr (case map_of d k of Some v \<Rightarrow> v | None \<Rightarrow> dflt)
      | _ \<Rightarrow> Inl AttributeError)"

definition py_getitem :: "pyval \<Rightarrow> string \<Rightarrow> error + pyval" where
  "py_getitem sec k =
     (case sec of
        VDict d \<Rightarrow> (case map_of d k of Some v \<Rightarrow> Inr v | None \<Rightarrow> Inl (KeyError k))
      | _ \<Rightarrow> Inl TypeError)"

text \<open>The number a bool, an int or a float stands for in arithmetic.\<close>

fun as_float :: "pyval \<Rightarrow> pyfloat option" where
  "as_float (VBool b) = Some (Finite (if b then 1 else 0))"
| "as_float (VInt i) = Some (Finite (of_int i))"
| "as_float (VFloat f) = Some f"
| "as_float v = None"

fun float_lt :: "pyfloat \<Rightarrow> pyfloat \<Rightarrow> bool" where
  "float_lt NaN y = False"
| "float_lt x NaN = False"
| "float_lt (Finite a) (Finite b) = (a < b)"
| "float_lt x NegInf = False"
| "float_lt PosInf y = False"
| "float_lt NegInf y = True"
| "float_lt (Finite a) PosInf = True"

text \<open>
  \<^verbatim>\<open>a < b\<close> and \<^verbatim>\<open>a > b\<close> where \<open>b\<close> is a number, as it is at every comparison of
  the scorer: a left operand that is no number raises \<^verbatim>\<open>TypeError\<close>.
\<close>

definition py_lt :: "pyval \<Rightarrow> pyval \<Rightarrow> error + bool" where
  "py_lt a b =
     (case (as_float a, as_float b) of
        (Some x, Some y) \<Rightarrow> Inr (float_lt x y)
      | _ \<Rightarrow> Inl TypeError)"

definition py_gt :: "pyval \<Rightarrow> pyval \<Rightarrow> error + bool" where
  "py_gt a b =
     (case (as_float a, as_float b) of
        (Some x, Some y) \<Rightarrow> Inr (float_lt y x)
      | _ \<Rightarrow> Inl TypeError)"

text \<open>
  Rounding to the nearest double, ties to the even mantissa (IEEE 754 binary64): the
  exponent of a rational, the spacing of the doubles at that exponent (one for all
  subnormal numbers), and the nearest multiple of the spacing.
\<close>

definition pow2 :: "int \<Rightarrow> rat" where
  "pow2 e = (if 0 \<le> e then 2 ^ nat e else 1 / 2 ^ nat (- e))"

definition log2_floor :: "rat \<Rightarrow> int" where
  "log2_floor q =
     (case quotient_of q of
        (a, b) \<Rightarrow> (let k = bitlen a - bitlen b in if pow2 k \<le> q then k else k - 1))"

definition round_half_even :: "rat \<Rightarrow> int" where
  "round_half_even x =
     (let f = \<lfloor>x\<rfloor>; d = x - of_int f
      in if d < 1 / 2 then f else if 1 / 2 < d then f + 1 else if even f then f else f + 1)"

definition round_double :: "rat \<Rightarrow> rat" where
  "round_double q =
     (if q = 0 then 0
      else (let e = max (log2_floor \<bar>q\<bar>) (- 1022); ulp = pow2 (e - 52)
            in of_int (round_half_even (q / ulp)) * ulp))"

text \<open>
  True division \<^verbatim>\<open>a / b\<close>. Two ints give the quotient rounded to a float, or
  \<^verbatim>\<open>OverflowError\<close> when it is too large for one, which is from
  \<open>2 ^ 1024 - 2 ^ 970\<close> on; with a float operand an int is converted first
  (\<^verbatim>\<open>OverflowError\<close> from the same bound on) and the division follows IEEE 754,
  where a quotient too large is an infinity.
\<close>

definition is_float :: "pyval \<Rightarrow> bool" where
  "is_float v = (case v of VFloat f \<Rightarrow> True | _ \<Rightarrow> False)"

definition fits_float :: "rat \<Rightarrow> bool" where
  "fits_float q = (\<bar>q\<bar> < 2 ^ 1024 - 2 ^ 970)"

fun float_div :: "pyfloat \<Rightarrow> pyfloat \<Rightarrow> pyfloat" where
  "float_div NaN y = NaN"
| "float_div x NaN = NaN"
| "float_div (Finite a) (Finite b) =
     (if fits_float (a / b) then Finite (round_double (a / b))
      else if a / b < 0 then NegInf else PosInf)"
| "float_div (Finite a) y = Finite 0"
| "float_div PosInf (Finite b) = (if b < 0 then NegInf else PosInf)"
| "float_div NegInf (Finite b) = (if b < 0 then PosInf else NegInf)"
| "float_div x y = NaN"

fun as_int :: "pyval \<Rightarrow> int option" where
  "as_int (VBool b) = Some (if b then 1 else 0)"
| "as_int (VInt i) = Some i"
| "as_int v = None"

fun to_float :: "pyval \<Rightarrow> error + pyfloat" where
  "to_float (VFloat f) = Inr f"
| "to_float (VInt i) =
     (if fits_float (of_int i) then Inr (Finite (round_double (of_int i))) else Inl OverflowError)"
| "to_float (VBool b) = Inr (Finite (if b then 1 else 0))"
| "to_float v = Inl TypeError"

definition py_truediv :: "pyval \<Rightarrow> pyval \<Rightarrow> error + pyval" where
  "py_truediv a b =
     (if is_float a \<or> is_float b then
        bind (to_float a) (\<lambda>x.
        bind (to_float b) (\<lambda>y.
        if y = Finite 0 then Inl ZeroDivisionError else Inr (VFloat (float_div x y))))
      else
        (case (as_int a, as_int b) of
           (Some p, Some q) \<Rightarrow>
             if q = 0 then Inl ZeroDivisionError
             else if fits_float (of_int p / of_int q)
             then Inr (VFloat (Finite (round_double (of_int p / of_int q))))
             else Inl OverflowError
         | _ \<Rightarrow> Inl TypeError))"

section \<open>The scorer: \<^verbatim>\<open>auto_score_website\<close>\<close>

text \<open>
  \<^verbatim>\<open>initialize_results()\<close>; the time stamp is what \<^verbatim>\<open>datetime.now().isoformat()\<close>
  returns at the call.
\<close>

definition initialize_results :: "string \<Rightarrow> pyval" where
  "initialize_results now =
     VDict
       [(''basic'', VDict [(''load_time'', VFloat (Finite 0)), (''scan_timestamp'', VStr now)]),
        (''meta'',
           VDict
             [(''title'', VStr []), (''title_length'', VInt 0), (''description'', VStr []),
              (''viewport'', VBool False), (''has_favicon'', VBool False),
              (''canonical'', VStr []), (''og_tags'', VDict [])]),
        (''resources'', VDict [(''images'', VInt 0), (''stylesheets'', VInt 0), (''scripts'', VInt 0)]),
        (''performance'',
           VDict
             [(''page_size_kb'', VFloat (Finite 0)), (''requests'', VInt 0),
              (''dom_elements'', VInt 0), (''dom_depth'', VInt 0)]),
        (''security'',
           VDict
             [(''https'', VBool False), (''hsts'', VBool False),
              (''content_security_policy'', VBool False), (''x_frame_options'', VBool False)]),
        (''accessibility'',
           VDict
             [(''alt_text_images'', VInt 0), (''lang_attribute'', VBool False),
              (''aria_attributes'', VInt 0)]),
        (''issues'', VList [])]"

definition required_sections :: "(string \<times> pydict) list" where
  "required_sections =
     [(''basic'', [(''load_time'', VFloat (Finite 8))]),
      (''performance'',
         [(''page_size_kb'', VFloat (Finite 1000)), (''requests'', VInt 30),
          (''dom_depth'', VInt 20)]),
      (''security'', []),
      (''meta'', []),
      (''accessibility'', []),
      (''resources'', [])]"

text \<open>\<^verbatim>\<open>float(default_value)\<close> for the default values of the table above.\<close>

fun py_float :: "pyval \<Rightarrow> pyval" where
  "py_float (VInt i) = VFloat (Finite (round_double (of_int i)))"
| "py_float (VBool b) = VFloat (Finite (if b then 1 else 0))"
| "py_float v = v"

text \<open>
  The inner loop over the defaults of one section, on \<^verbatim>\<open>analysis_data[section]\<close>.
  \<^verbatim>\<open>page_size_kb\<close> is replaced unless it is a number (\<^verbatim>\<open>.get\<close> gives \<^verbatim>\<open>None\<close> for
  a missing key); every other key is only filled in when missing. A section that is
  no dict has neither \<^verbatim>\<open>get\<close> nor \<^verbatim>\<open>setdefault\<close>.
\<close>

fun fill_keys :: "pydict \<Rightarrow> pyval \<Rightarrow> error + pyval" where
  "fill_keys [] sec = Inr sec"
| "fill_keys ((key, default_value) # rest) sec =
     (case sec of
        VDict d \<Rightarrow>
          if key = ''page_size_kb'' then
            (if (case map_of d key of Some current_val \<Rightarrow> is_number current_val | None \<Rightarrow> False)
             then fill_keys rest sec
             else fill_keys rest (VDict (AList.update key (py_float default_value) d)))
          else fill_keys rest (VDict (snd (setdefault d key default_value)))
      | _ \<Rightarrow> Inl AttributeError)"

subsection \<open>Performance\<close>

definition load_time_points :: "pyval \<Rightarrow> error + int" where
  "load_time_points load_time =
     bind (py_lt load_time (VFloat (Finite (3 / 2)))) (\<lambda>c1. if c1 then Inr 4 else
     bind (py_lt load_time (VInt 3)) (\<lambda>c2. if c2 then Inr 3 else
     bind (py_lt load_time (VInt 5)) (\<lambda>c3. if c3 then Inr 2 else
     bind (py_lt load_time (VInt 8)) (\<lambda>c4. if c4 then Inr 1 else Inr 0))))"

definition page_size_points :: "pyval \<Rightarrow> error + int" where
  "page_size_points page_size =
     bind (py_lt page_size (VInt 300)) (\<lambda>c1. if c1 then Inr 2 else
     bind (py_lt page_size (VInt 800)) (\<lambda>c2. if c2 then Inr 1 else Inr 0))"

definition requests_points :: "pyval \<Rightarrow> error + int" where
  "requests_points requests =
     bind (py_lt requests (VInt 15)) (\<lambda>c1. if c1 then Inr 2 else
     bind (py_lt requests (VInt 30)) (\<lambda>c2. if c2 then Inr 1 else Inr 0))"

definition dom_depth_points :: "pyval \<Rightarrow> error + int" where
  "dom_depth_points dom_depth =
     bind (py_lt dom_depth (VInt 15)) (\<lambda>c1. if c1 then Inr 1 else
     bind (py_gt dom_depth (VInt 30)) (\<lambda>c2. if c2 then Inr (- 1) else Inr 0))"

text \<open>The accumulator \<^verbatim>\<open>perf_score\<close>, starting at 0, before it is halved and clamped.\<close>

definition perf_score :: "pyval \<Rightarrow> pyval \<Rightarrow> pyval \<Rightarrow> pyval \<Rightarrow> error + int" where
  "perf_score load_time page_size requests dom_depth =
     bind (load_time_points load_time) (\<lambda>a.
     bind (page_size_points page_size) (\<lambda>b.
     bind (requests_points requests) (\<lambda>c.
     bind (dom_depth_points dom_depth) (\<lambda>d.
     Inr (0 + a + b + c + d)))))"

definition performance_score :: "pyval \<Rightarrow> pyval \<Rightarrow> error + int" where
  "performance_score basic perf =
     bind (py_getitem basic ''load_time'') (\<lambda>load_time.
     bind (py_getitem perf ''page_size_kb'') (\<lambda>page_size.
     bind (py_getitem perf ''requests'') (\<lambda>requests.
     bind (py_getitem perf ''dom_depth'') (\<lambda>dom_depth.
     bind (perf_score load_time page_size requests dom_depth) (\<lambda>total.
     Inr (min (max 1 (total div 2)) 5))))))"

subsection \<open>Security, SEO, mobile, first impressions\<close>

definition security_score :: "pyval \<Rightarrow> error + int" where
  "security_score security =
     bind (py_get security ''https'' (VBool False)) (\<lambda>https.
     bind (py_get security ''hsts'' (VBool False)) (\<lambda>hsts.
     bind (py_get security ''content_security_policy'' (VBool False)) (\<lambda>csp.
     bind (py_get security ''x_frame_options'' (VBool False)) (\<lambda>xfo.
     Inr (min (1 + (if truthy https then 3 else 0) + (if truthy hsts then 1 else 0)
               + (if truthy csp then 1 else 0) + (if truthy xfo then 1 else 0)) 5)))))"

text \<open>\<^verbatim>\<open>v and lo <= len(v) <= hi\<close>: the length is taken only of a true value.\<close>

definition length_between :: "pyval \<Rightarrow> int \<Rightarrow> int \<Rightarrow> error + bool" where
  "length_between v lo hi =
     (if truthy v then bind (py_len v) (\<lambda>n. Inr (lo \<le> n \<and> n \<le> hi)) else Inr False)"

definition seo_score :: "pyval \<Rightarrow> error + int" where
  "seo_score meta =
     bind (py_get meta ''title'' (VStr [])) (\<lambda>title.
     bind (length_between title 30 60) (\<lambda>title_ok.
     bind (py_get meta ''description'' (VStr [])) (\<lambda>description.
     bind (length_between description 50 160) (\<lambda>description_ok.
     bind (py_get meta ''viewport'' (VBool False)) (\<lambda>viewport.
     bind (py_get meta ''canonical'' (VStr [])) (\<lambda>canonical.
     bind (py_get meta ''og_tags'' (VDict [])) (\<lambda>og_tags.
     Inr (min (1 + (if title_ok then 2 else 0) + (if description_ok then 2 else 0)
               + (if truthy viewport then 1 else 0) + (if truthy canonical then 1 else 0)
               + (if truthy og_tags then 1 else 0)) 5))))))))"

definition mobile_score :: "pyval \<Rightarrow> pyval \<Rightarrow> error + int" where
  "mobile_score meta resources =
     bind (py_get meta ''viewport'' (VBool False)) (\<lambda>viewport.
     bind (py_get resources ''stylesheets'' (VInt 0)) (\<lambda>stylesheets.
     bind (py_gt stylesheets (VInt 0)) (\<lambda>has_css.
     Inr (min (1 + (if truthy viewport then 3 else 0) + (if has_css then 1 else 0)) 5))))"

definition first_impressions_score :: "pyval \<Rightarrow> error + int" where
  "first_impressions_score meta =
     bind (py_get meta ''has_favicon'' (VBool False)) (\<lambda>has_favicon.
     bind (py_get meta ''title'' (VStr [])) (\<lambda>title.
     bind (py_get meta ''description'' (VStr [])) (\<lambda>description.
     Inr (min (2 + (if truthy has_favicon then 1 else 0) + (if truthy title then 1 else 0)
               + (if truthy description then 1 else 0)) 5))))"

subsection \<open>Content quality\<close>

text \<open>
  The optional argument \<^verbatim>\<open>response_text\<close>, through what the scorer takes from it:
  nothing when it is \<^verbatim>\<open>None\<close> or empty, the number of words in the paragraph and
  heading elements that the parser finds, or an exception of the parser, which the bare
  \<^verbatim>\<open>except: pass\<close> swallows.
\<close>

datatype page_text = NoText | Words nat | ParserFailed

definition content_score :: "page_text \<Rightarrow> int" where
  "content_score response_text =
     min (max 1
       (3 + (case response_text of
               Words word_count \<Rightarrow>
                 if word_count > 500 then 1 else if word_count < 100 then - 1 else 0
             | _ \<Rightarrow> 0))) 5"

subsection \<open>Accessibility\<close>

text \<open>
  The literal \<^verbatim>\<open>0.9\<close> is the double nearest to 9/10; \<^verbatim>\<open>0.5\<close> is exact.
\<close>

definition alt_text_points :: "pyval \<Rightarrow> pyval \<Rightarrow> error + int" where
  "alt_text_points total_images alt_images =
     bind (py_gt total_images (VInt 0)) (\<lambda>has_images.
     if has_images then
       bind (py_truediv alt_images total_images) (\<lambda>alt_ratio.
       bind (py_gt alt_ratio (VFloat (Finite (round_double (9 / 10))))) (\<lambda>c1. if c1 then Inr 2 else
       bind (py_gt alt_ratio (VFloat (Finite (1 / 2)))) (\<lambda>c2. if c2 then Inr 1 else Inr 0)))
     else Inr 0)"

definition accessibility_score :: "pyval \<Rightarrow> pyval \<Rightarrow> error + int" where
  "accessibility_score resources accessibility =
     bind (py_get resources ''images'' (VInt 0)) (\<lambda>total_images.
     bind (py_get accessibility ''alt_text_images'' (VInt 0)) (\<lambda>alt_images.
     bind (alt_text_points total_images alt_images) (\<lambda>img.
     bind (py_get accessibility ''lang_attribute'' (VBool False)) (\<lambda>lang.
     bind (py_get accessibility ''aria_attributes'' (VInt 0)) (\<lambda>aria.
     bind (py_gt aria (VInt 0)) (\<lambda>has_aria.
     Inr (min (1 + img + (if truthy lang then 1 else 0) + (if has_aria then 1 else 0)) 5)))))))"

subsection \<open>The whole function\<close>

type_synonym scoreset = "(string \<times> int) list"

text \<open>The scores of a record whose sections have been filled in, in the order of the code.\<close>

definition compute_scores :: "pyval \<Rightarrow> page_text \<Rightarrow> error + scoreset" where
  "compute_scores analysis_data response_text =
     bind (py_getitem analysis_data ''basic'') (\<lambda>basic.
     bind (py_getitem analysis_data ''performance'') (\<lambda>perf.
     bind (py_getitem analysis_data ''security'') (\<lambda>security.
     bind (py_getitem analysis_data ''meta'') (\<lambda>meta.
     bind (py_getitem analysis_data ''accessibility'') (\<lambda>accessibility.
     bind (py_getitem analysis_data ''resources'') (\<lambda>resources.
     bind (performance_score basic perf) (\<lambda>s_perf.
     bind (security_score security) (\<lambda>s_sec.
     bind (seo_score meta) (\<lambda>s_seo.
     bind (mobile_score meta resources) (\<lambda>s_mobile.
     bind (first_impressions_score meta) (\<lambda>s_first.
     bind (accessibility_score resources accessibility) (\<lambda>s_acc.
     Inr [(''Performance & Speed'', s_perf),
          (''Security & Compliance'', s_sec),
          (''SEO & Visibility'', s_seo),
          (''Mobile Responsiveness'', s_mobile),
          (''First Impressions & Branding'', s_first),
          (''Content Quality'', content_score response_text),
          (''Accessibility'', s_acc)]))))))))))))"

text \<open>
  \<^verbatim>\<open>auto_score_website(analysis_data, response_text)\<close>. A dict argument is completed
  in place, so the caller sees the change: the model returns the argument as the call
  leaves it, with the scores. An argument that is no dict is left alone; the function
  then works on a fresh \<^verbatim>\<open>initialize_results()\<close>, for which it reads the clock
  (\<open>now\<close>). When the call raises, the model gives the exception only.
\<close>

definition is_dict :: "pyval \<Rightarrow> bool" where
  "is_dict v = (case v of VDict d \<Rightarrow> True | _ \<Rightarrow> False)"

definition auto_score_website :: "string \<Rightarrow> pyval \<Rightarrow> page_text \<Rightarrow> error + (pyval \<times> scoreset)" where
  "auto_score_website now analysis_data response_text =
     (case (if is_dict analysis_data then analysis_data else initialize_results now) of
        VDict d0 \<Rightarrow>
          bind (each_section fill_keys required_sections d0) (\<lambda>d.
          bind (compute_scores (VDict d) response_text) (\<lambda>scores.
          Inr (if is_dict analysis_data then VDict d else analysis_data, scores)))
      | _ \<Rightarrow> Inl AttributeError)"

section \<open>The category catalog and the report rows\<close>

text \<open>
  An entry of \<^verbatim>\<open>CATEGORIES\<close> is either a dict with the keys \<^verbatim>\<open>scores\<close> and
  \<^verbatim>\<open>weight\<close> or a plain list of the five recommendations.
\<close>

datatype category = Weighted "string list" rat | Listed "string list"

definition CATEGORIES :: "(string \<times> category) list" where
  "CATEGORIES =
     [(''First Impressions & Branding'',
         Weighted
           [''Lacks professional design and messaging. Recommend full redesign.'',
            ''Unclear offer. Suggest branding update, clearer value prop, and trust elements.'',
            ''Decent design, but needs polish. Recommend refining layout and visuals.'',
            ''Strong branding with minor design updates suggested.'',
            ''Excellent branding. No improvements needed.'']
           (12 / 10)),
      (''User Experience (UX)'',
         Weighted
           [''Confusing journey. Full UX overhaul needed.'',
            ''Navigation and flow inconsistent. Suggest restructuring.'',
            ''Usable, but some friction. Recommend usability testing.'',
            ''Good UX with minor friction points. Suggest tweaks.'',
            ''Excellent UX. No changes needed.'']
           (13 / 10)),
      (''Performance & Speed'',
         Listed
           [''Extremely slow. Recommend full optimization (hosting, images, scripts).'',
            ''Slow load times. Suggest compressing assets and optimizing code.'',
            ''Acceptable speed. Room for improvement with lazy loading/CDN.'',
            ''Good performance with small issues to address.'',
            ''Excellent performance. No changes needed.'']),
      (''Mobile Responsiveness'',
         Listed
           [''Poor experience on mobile. Recommend responsive redesign.'',
            ''Major mobile issues. Redesign mobile layout and fix touch elements.'',
            ''Responsive but with usability gaps. Suggest mobile-specific adjustments.'',
            ''Good responsiveness. Test and refine further.'',
            ''Perfect mobile design. No improvements needed.'']),
      (''SEO & Visibility'',
         Listed
           [''No SEO foundations. Recommend full setup (meta, sitemap, schema).'',
            ''Minimal SEO. Recommend on-page SEO and metadata improvements.'',
            ''Basic SEO setup. Recommend keyword and content optimization.'',
            ''Good SEO. Suggest content strategy enhancements.'',
            ''Excellent SEO. No improvements needed.'']),
      (''Security & Compliance'',
         Listed
           [''No HTTPS or compliance. Urgent fixes needed (SSL, policy, updates).'',
            ''Basic security but missing compliance features. Recommend updates.'',
            ''Secure but outdated components. Suggest plugin/CMS updates.'',
            ''Secure with minor improvements needed.'',
            ''Fully secure and compliant. No changes needed.'']),
      (''Accessibility'',
         Listed
           [''No accessibility. Recommend WCAG audit and full compliance plan.'',
            ''Major issues (contrast, keyboard nav). Recommend improvements.'',
            ''Some basics present. Suggest screen reader and contrast review.'',
            ''Mostly compliant. Suggest accessibility testing tools.'',
            ''Fully compliant and accessible. Great work!'']),
      (''Analytics & Conversions'',
         Listed
           [''No tracking. Recommend GA4, goal setup, CRM integration.'',
            ''Basic analytics only. Add events and conversion goals.'',
            ''Some tracking in place. Recommend UTM and funnel tracking.'',
            ''Well-tracked site. Suggest dashboards and heatmaps.'',
            ''Excellent analytics. Fully optimized.''])]"

text \<open>\<^verbatim>\<open>xs[i]\<close> on a list: a negative index counts from the end.\<close>

definition py_index :: "'a list \<Rightarrow> int \<Rightarrow> error + 'a" where
  "py_index xs i =
     (if 0 \<le> i \<and> i < int (length xs) then Inr (xs ! nat i)
      else if i < 0 \<and> - int (length xs) \<le> i then Inr (xs ! nat (int (length xs) + i))
      else Inl IndexError)"

text \<open>
  The recommendation of one row. For a category that the catalog does not have,
  \<^verbatim>\<open>CATEGORIES.get(category, {})\<close> is the empty dict, so the first branch is taken and
  \<^verbatim>\<open>CATEGORIES[category]\<close> raises \<^verbatim>\<open>KeyError\<close>.
\<close>

definition recommendation :: "string \<Rightarrow> int \<Rightarrow> error + string" where
  "recommendation category score =
     (case map_of CATEGORIES category of
        None \<Rightarrow> Inl (KeyError category)
      | Some (Weighted scores weight) \<Rightarrow> py_index scores (score - 1)
      | Some (Listed scores) \<Rightarrow> py_index scores (score - 1))"

text \<open>\<^verbatim>\<open>create_results_dataframe(scores, url)\<close>: the rows Section, Score, Recommendation.\<close>

fun create_results_dataframe :: "scoreset \<Rightarrow> string \<Rightarrow> error + (string \<times> int \<times> string) list" where
  "create_results_dataframe [] url = Inr []"
| "create_results_dataframe ((category, score) # rest) url =
     bind (recommendation category score) (\<lambda>rec.
     bind (create_results_dataframe rest url) (\<lambda>rows.
     Inr ((category, score, rec) # rows)))"

section \<open>The validator: \<^verbatim>\<open>validate_url\<close>\<close>

subsection \<open>Library functions on strings\<close>

text \<open>
  \<^verbatim>\<open>str.strip()\<close> removes white space at both ends; below code point 256 that is
  9 to 13, 28 to 32, 133 and 160.
\<close>

definition is_space :: "char \<Rightarrow> bool" where
  "is_space c = ((of_char c :: nat) \<in> {9, 10, 11, 12, 13, 28, 29, 30, 31, 32, 133, 160})"

definition strip :: "string \<Rightarrow> string" where
  "strip s = rev (dropWhile is_space (rev (dropWhile is_space s)))"

definition startswith :: "string \<Rightarrow> string \<Rightarrow> bool" where
  "startswith p s = (take (length p) s = p)"

text \<open>\<^verbatim>\<open>s.replace(c, r)\<close> for a single character \<open>c\<close>, and \<^verbatim>\<open>html.escape(s)\<close>.\<close>

definition replace_char :: "char \<Rightarrow> string \<Rightarrow> string \<Rightarrow> string" where
  "replace_char c r s = concat (map (\<lambda>x. if x = c then r else [x]) s)"

definition html_escape :: "string \<Rightarrow> string" where
  "html_escape s =
     replace_char (CHR 0x27) ''&#x27;''
       (replace_char (CHR 0x22) ''&quot;''
         (replace_char CHR ''>'' ''&gt;''
           (replace_char CHR ''<'' ''&lt;''
             (replace_char CHR ''&'' ''&amp;'' s))))"

text \<open>
  The scheme and the network location that \<^verbatim>\<open>urllib.parse.urlparse\<close> finds, after
  CPython 3.12: leading control characters and spaces are dropped, tab, carriage return
  and line feed are removed, a leading run of scheme characters before the first colon
  is the scheme (in lower case), and after \<^verbatim>\<open>//\<close> the network location runs to the
  first of \<^verbatim>\<open>/ ? #\<close>. A network location with one kind of square bracket only raises
  \<^verbatim>\<open>ValueError\<close>. One with both is checked as an IP literal by the library's
  \<^verbatim>\<open>ipaddress\<close> module, which is not modelled: the check is the parameter
  \<open>check_bracketed\<close>, giving the message of the \<^verbatim>\<open>ValueError\<close> that the library
  raises, if it does. The check of a network location under NFKC normalisation never
  fails on code points below 256.
\<close>

definition is_alpha :: "char \<Rightarrow> bool" where
  "is_alpha c =
     (let n = (of_char c :: nat) in (65 \<le> n \<and> n \<le> 90) \<or> (97 \<le> n \<and> n \<le> 122))"

definition is_scheme_char :: "char \<Rightarrow> bool" where
  "is_scheme_char c =
     (let n = (of_char c :: nat)
      in is_alpha c \<or> (48 \<le> n \<and> n \<le> 57) \<or> c = CHR ''+'' \<or> c = CHR ''-'' \<or> c = CHR ''.'')"

definition lower_char :: "char \<Rightarrow> char" where
  "lower_char c =
     (let n = (of_char c :: nat) in if 65 \<le> n \<and> n \<le> 90 then char_of (n + 32) else c)"

definition split_scheme :: "string \<Rightarrow> string \<times> string" where
  "split_scheme url =
     (let head = takeWhile (\<lambda>c. c \<noteq> CHR '':'') url
      in if CHR '':'' \<in> set url \<and> head \<noteq> [] \<and> is_alpha (hd head) \<and> list_all is_scheme_char head
         then (map lower_char head, drop (length head + 1) url)
         else ([], url))"

definition urlparse :: "(string \<Rightarrow> string option) \<Rightarrow> string \<Rightarrow> error + (string \<times> string)" where
  "urlparse check_bracketed url0 =
     (let url1 = dropWhile (\<lambda>c. (of_char c :: nat) \<le> 32) url0;
          url = filter (\<lambda>c. (of_char c :: nat) \<notin> {9, 10, 13}) url1;
          (scheme, rest) = split_scheme url
      in if take 2 rest = ''//'' then
           (let netloc = takeWhile (\<lambda>c. c \<noteq> CHR ''/'' \<and> c \<noteq> CHR ''?'' \<and> c \<noteq> CHR ''#'') (drop 2 rest);
                opening = CHR ''['' \<in> set netloc;
                closing = CHR '']'' \<in> set netloc
            in if (opening \<and> \<not> closing) \<or> (closing \<and> \<not> opening)
               then Inl (ValueError ''Invalid IPv6 URL'')
               else if opening \<and> closing then
                 (case check_bracketed netloc of
                    Some msg \<Rightarrow> Inl (ValueError msg)
                  | None \<Rightarrow> Inr (scheme, netloc))
               else Inr (scheme, netloc))
         else Inr (scheme, []))"

text \<open>
  \<^verbatim>\<open>str(e)\<close>. The model keeps the message of a \<^verbatim>\<open>ValueError\<close> and the key of a
  \<^verbatim>\<open>KeyError\<close> only; for the other exceptions the name of the class stands for the
  message.
\<close>

fun error_message :: "error \<Rightarrow> string" where
  "error_message (ValueError msg) = msg"
| "error_message (KeyError k) = [CHR 0x27] @ k @ [CHR 0x27]"
| "error_message TypeError = ''TypeError''"
| "error_message AttributeError = ''AttributeError''"
| "error_message IndexError = ''IndexError''"
| "error_message OverflowError = ''OverflowError''"
| "error_message ZeroDivisionError = ''ZeroDivisionError''"

subsection \<open>The function\<close>

text \<open>
  The body of the \<^verbatim>\<open>try\<close> block: parse, check scheme and host, escape. The emptiness
  test of \<^verbatim>\<open>validate_url\<close> comes before \<^verbatim>\<open>strip\<close>; every exception of the block is
  raised again as a \<^verbatim>\<open>ValueError\<close> with the prefix \<^verbatim>\<open>Invalid URL: \<close>.
\<close>

definition check_url :: "(string \<Rightarrow> string option) \<Rightarrow> string \<Rightarrow> error + string" where
  "check_url check_bracketed url =
     bind (urlparse check_bracketed url) (\<lambda>(scheme, netloc).
     if scheme = [] \<or> netloc = [] then Inl (ValueError ''Invalid URL structure'')
     else if CHR ''.'' \<notin> set netloc \<or> length netloc < 4 then Inl (ValueError ''Invalid domain format'')
     else Inr (html_escape url))"

definition validate_url :: "(string \<Rightarrow> string option) \<Rightarrow> pyval \<Rightarrow> error + string" where
  "validate_url check_bracketed url =
     (case url of
        VStr s \<Rightarrow>
          if s = [] then Inl (ValueError ''URL cannot be empty'')
          else
            (let stripped = strip s;
                 prefixed =
                   (if startswith ''http://'' stripped \<or> startswith ''https://'' stripped
                    then stripped else ''https://'' @ stripped)
             in case check_url check_bracketed prefixed of
                  Inl e \<Rightarrow> Inl (ValueError (''Invalid URL: '' @ error_message e))
                | Inr escaped \<Rightarrow> Inr escaped)
      | _ \<Rightarrow> Inl (ValueError ''URL cannot be empty''))"

text \<open>A library that accepts every bracketed host, as CPython did before 3.11.4.\<close>

definition no_bracket_check :: "string \<Rightarrow> string option" where
  "no_bracket_check netloc = None"

section \<open>The scan: \<^verbatim>\<open>scan_website\<close>\<close>

text \<open>
  What the scan takes from outside the program is a parameter, the \<open>world\<close>: the clock,
  the library's check of a bracketed host, the transport, and the time that
  \<^verbatim>\<open>time.time() - start_time\<close> measures. The transport answers a request with a
  response, with a \<^verbatim>\<open>requests.exceptions.RequestException\<close> (time-out, connection
  error, too many redirects, an error status at \<^verbatim>\<open>raise_for_status\<close>) or with an
  exception of another class; the string is \<^verbatim>\<open>str\<close> of the exception.

  Of a response the scan reads the final URL, the length of the body, the header names
  (kept in lower case: the header lookup ignores case) and the parsed document. The
  document is given by the results of the queries that the scan makes on it, or by the
  exception that parsing raised; the queries themselves are taken not to raise.
\<close>

record page_signals =
  title_string :: "string option option"
  meta_description :: "string option option"
  has_viewport :: bool
  has_icon :: bool
  canonical_href :: "string option option"
  img_with_alt :: nat
  html_lang :: "string option option"
  aria_elements :: nat
  img_count :: nat
  stylesheet_count :: nat
  script_src_count :: nat

datatype parse_outcome = Parsed page_signals | ParseRaised string

record response =
  final_url :: string
  content_length :: nat
  header_names :: "string list"
  document :: parse_outcome

datatype fetch_outcome = Fetched response | RequestException string | OtherException string

record world =
  timestamp :: string
  check_bracketed_host :: "string \<Rightarrow> string option"
  session_get :: "string \<Rightarrow> fetch_outcome"
  elapsed :: pyfloat

text \<open>
  \<^verbatim>\<open>results[section][key] = v\<close> and \<^verbatim>\<open>results['issues'].append(msg)\<close>. In
  \<^verbatim>\<open>scan_website\<close> the record is local and comes from \<^verbatim>\<open>initialize_results\<close>, so
  every section is a dict and \<^verbatim>\<open>issues\<close> a list whenever these run; on any other
  record the model leaves the record as it is.
\<close>

definition set_field :: "pyval \<Rightarrow> string \<Rightarrow> string \<Rightarrow> pyval \<Rightarrow> pyval" where
  "set_field r s k v =
     (case r of
        VDict d \<Rightarrow>
          (case map_of d s of
             Some (VDict sec) \<Rightarrow> VDict (AList.update s (VDict (AList.update k v sec)) d)
           | _ \<Rightarrow> r)
      | _ \<Rightarrow> r)"

definition append_issue :: "pyval \<Rightarrow> string \<Rightarrow> pyval" where
  "append_issue r msg =
     (case r of
        VDict d \<Rightarrow>
          (case map_of d ''issues'' of
             Some (VList l) \<Rightarrow> VDict (AList.update ''issues'' (VList (l @ [VStr msg])) d)
           | _ \<Rightarrow> r)
      | _ \<Rightarrow> r)"

text \<open>The first loop of \<^verbatim>\<open>scan_website\<close>, over \<^verbatim>\<open>required_keys\<close>.\<close>

definition required_keys :: "(string \<times> pydict) list" where
  "required_keys =
     [(''performance'',
         [(''page_size_kb'', VFloat (Finite 0)), (''requests'', VInt 0), (''dom_depth'', VInt 0)]),
      (''basic'', [(''load_time'', VFloat (Finite 0))])]"

fun require_fields :: "pydict \<Rightarrow> pydict \<Rightarrow> pydict" where
  "require_fields [] sec = sec"
| "require_fields ((key, val) # rest) sec =
     require_fields rest
       (if (case map_of sec key of Some v \<Rightarrow> is_number v | None \<Rightarrow> False)
        then sec else AList.update key val sec)"

fun require_sections :: "(string \<times> pydict) list \<Rightarrow> pyval \<Rightarrow> pyval" where
  "require_sections [] r = r"
| "require_sections ((section, defs) # rest) r =
     (case r of
        VDict d \<Rightarrow>
          (case setdefault d section (VDict []) of
             (VDict sec, d1) \<Rightarrow>
               require_sections rest
                 (VDict (AList.update section (VDict (require_fields defs sec)) d1))
           | _ \<Rightarrow> r)
      | _ \<Rightarrow> r)"

text \<open>The block "final validation before return".\<close>

definition final_validation :: "pyval \<Rightarrow> pyval" where
  "final_validation r =
     (case r of
        VDict d \<Rightarrow>
          (case setdefault d ''performance'' (VDict []) of
             (VDict perf, d1) \<Rightarrow>
               if is_number (case map_of perf ''page_size_kb'' of Some v \<Rightarrow> v | None \<Rightarrow> VFloat (Finite 0))
               then VDict d1
               else VDict (AList.update ''performance''
                             (VDict (AList.update ''page_size_kb'' (VFloat (Finite 0)) perf)) d1)
           | _ \<Rightarrow> r)
      | _ \<Rightarrow> r)"

text \<open>The assignments of the inner \<^verbatim>\<open>try\<close> block, in the order of the code.\<close>

definition or_empty :: "string option \<Rightarrow> string" where
  "or_empty s = (case s of Some x \<Rightarrow> x | None \<Rightarrow> [])"

definition extract_signals :: "page_signals \<Rightarrow> string list \<Rightarrow> pyval \<Rightarrow> pyval" where
  "extract_signals p headers r0 =
     (let r1 = (case title_string p of
                  None \<Rightarrow> r0
                | Some s \<Rightarrow>
                    set_field (set_field r0 ''meta'' ''title'' (VStr (or_empty s)))
                      ''meta'' ''title_length'' (VInt (int (length (or_empty s)))));
          r2 = set_field r1 ''meta'' ''description''
                 (VStr (case meta_description p of Some c \<Rightarrow> or_empty c | None \<Rightarrow> []));
          r3 = set_field r2 ''meta'' ''viewport'' (VBool (has_viewport p));
          r4 = set_field r3 ''meta'' ''has_favicon'' (VBool (has_icon p));
          r5 = set_field r4 ''meta'' ''canonical''
                 (VStr (case canonical_href p of Some h \<Rightarrow> or_empty h | None \<Rightarrow> []));
          r6 = set_field r5 ''accessibility'' ''alt_text_images'' (VInt (int (img_with_alt p)));
          r7 = set_field r6 ''accessibility'' ''lang_attribute''
                 (VBool (case html_lang p of Some l \<Rightarrow> or_empty l \<noteq> [] | None \<Rightarrow> False));
          r8 = set_field r7 ''accessibility'' ''aria_attributes'' (VInt (int (aria_elements p)));
          r9 = set_field r8 ''resources'' ''images'' (VInt (int (img_count p)));
          r10 = set_field r9 ''resources'' ''stylesheets'' (VInt (int (stylesheet_count p)));
          r11 = set_field r10 ''resources'' ''scripts'' (VInt (int (script_src_count p)));
          r12 = set_field r11 ''security'' ''hsts'' (VBool (''strict-transport-security'' \<in> set headers));
          r13 = set_field r12 ''security'' ''content_security_policy''
                  (VBool (''content-security-policy'' \<in> set headers))
      in set_field r13 ''security'' ''x_frame_options'' (VBool (''x-frame-options'' \<in> set headers)))"

text \<open>
  The result of the scan: \<^verbatim>\<open>{'status': 'success', 'data': results}\<close> or
  \<^verbatim>\<open>{'status': 'error', 'message': str(e), 'data': results}\<close>.
\<close>

datatype scan_result = Success pyval | Error string pyval

fun data_of :: "scan_result \<Rightarrow> pyval" where
  "data_of (Success results) = results"
| "data_of (Error message results) = results"

definition scan_error :: "string \<Rightarrow> pyval \<Rightarrow> scan_result" where
  "scan_error message results =
     Error message
       (set_field (append_issue results (''Scan error: '' @ message))
          ''performance'' ''page_size_kb'' (VFloat (Finite 0)))"

text \<open>
  \<^verbatim>\<open>scan_website(url)\<close>: the URLs requested from the transport, in order, and the
  result.
\<close>

definition scan_website :: "world \<Rightarrow> pyval \<Rightarrow> string list \<times> scan_result" where
  "scan_website w url =
     (let results = require_sections required_keys (initialize_results (timestamp w))
      in case validate_url (check_bracketed_host w) url of
           Inl e \<Rightarrow> ([], scan_error (error_message e) results)
         | Inr validated_url \<Rightarrow>
             (case session_get w validated_url of
                Fetched response \<Rightarrow>
                  (let r1 = set_field results ''basic'' ''load_time'' (VFloat (elapsed w));
                       r2 = set_field r1 ''performance'' ''page_size_kb''
                              (VFloat (Finite (round_double (of_nat (content_length response) / 1024))));
                       r3 = set_field r2 ''security'' ''https''
                              (VBool (startswith ''https://'' (final_url response)));
                       r4 = (case document response of
                               Parsed p \<Rightarrow> extract_signals p (header_names response) r3
                             | ParseRaised msg \<Rightarrow> append_issue r3 (''HTML parsing error: '' @ msg))
                   in ([validated_url], Success (final_validation r4)))
              | RequestException msg \<Rightarrow>
                  (let r1 = append_issue results (''Request failed: '' @ msg);
                       r2 = set_field r1 ''basic'' ''load_time'' (VFloat (elapsed w));
                       r3 = set_field r2 ''performance'' ''page_size_kb'' (VFloat (Finite 0))
                   in ([validated_url], Success (final_validation r3)))
              | OtherException msg \<Rightarrow> ([validated_url], scan_error msg results)))"

section \<open>The route handler: \<^verbatim>\<open>index\<close>, for a POST request\<close>

text \<open>
  The page that the handler renders: the results page with the validated URL, the scores
  and the record, or the index page with an error message. Session storage and the chart
  data are left out.
\<close>

datatype page = ResultsPage string scoreset pyval | IndexPage string

text \<open>The \<^verbatim>\<open>page_size_kb\<close> test between the sanitizer and the scorer.\<close>

definition restore_page_size :: "pyval \<Rightarrow> error + pyval" where
  "restore_page_size scan_data =
     bind (py_get scan_data ''performance'' (VDict [])) (\<lambda>perf.
     case perf of
       VDict p \<Rightarrow>
         (if map_of p ''page_size_kb'' = None
          then Inr (set_field scan_data ''performance'' ''page_size_kb'' (VFloat (Finite 0)))
          else Inr scan_data)
     | _ \<Rightarrow> Inl TypeError)"

definition index_post :: "world \<Rightarrow> string \<Rightarrow> string list \<times> page" where
  "index_post w form_url =
     (let url = strip form_url
      in if url = [] then ([], IndexPage ''Please enter a URL'')
         else
           (case validate_url (check_bracketed_host w) (VStr url) of
              Inl e \<Rightarrow> ([], IndexPage (error_message e))
            | Inr validated_url \<Rightarrow>
                (case scan_website w (VStr validated_url) of
                   (requested, scan_results) \<Rightarrow>
                     (case
                        bind (ensure_defaults (data_of scan_results)) (\<lambda>scan_data.
                        bind (restore_page_size scan_data) (\<lambda>scan_data1.
                        bind (auto_score_website (timestamp w) scan_data1 NoText) (\<lambda>(scan_data2, scores).
                        bind (create_results_dataframe scores validated_url) (\<lambda>df.
                        Inr (ResultsPage validated_url scores scan_data2)))))
                      of
                        Inl e \<Rightarrow> (requested, IndexPage (error_message e))
                      | Inr p \<Rightarrow> (requested, p)))))"

section \<open>Predicates and sample inputs for the properties\<close>

text \<open>
  A default field is in order when it is present with a value of the type of its default.
  A value is shaped like a record when it is a dict in which each of the six sections is
  either missing or a dict. \<open>section_of\<close> is what \<^verbatim>\<open>data.setdefault(section, {})\<close>
  returns.
\<close>

definition fields_ok :: "pydict \<Rightarrow> pydict \<Rightarrow> bool" where
  "fields_ok defs sec =
     (\<forall>(k, v) \<in> set defs. \<exists>x. map_of sec k = Some x \<and> isinstance_type_of x v)"

definition section_shaped :: "pydict \<Rightarrow> string \<Rightarrow> bool" where
  "section_shaped d s =
     (case map_of d s of None \<Rightarrow> True | Some (VDict sec) \<Rightarrow> True | Some v \<Rightarrow> False)"

definition record_shaped :: "pyval \<Rightarrow> bool" where
  "record_shaped r =
     (case r of VDict d \<Rightarrow> list_all (section_shaped d) (map fst defaults) | _ \<Rightarrow> False)"

definition section_of :: "pydict \<Rightarrow> string \<Rightarrow> pyval" where
  "section_of d s = fst (setdefault d s (VDict []))"

text \<open>A record with wrong-typed fields and missing sections.\<close>

definition malformed_record :: pyval where
  "malformed_record =
     VDict [(''basic'', VDict [(''load_time'', VStr ''slow'')]),
            (''meta'', VDict [(''title'', VInt 7), (''viewport'', VNone)]),
            (''issues'', VList [])]"

text \<open>The empty record, as the scorer leaves it, and its scores.\<close>

definition empty_record_completed :: pyval where
  "empty_record_completed =
     VDict
       [(''basic'', VDict [(''load_time'', VFloat (Finite 8))]),
        (''performance'',
           VDict [(''page_size_kb'', VFloat (Finite 1000)), (''requests'', VInt 30),
                  (''dom_depth'', VInt 20)]),
        (''security'', VDict []), (''meta'', VDict []),
        (''accessibility'', VDict []), (''resources'', VDict [])]"

definition empty_record_scores :: scoreset where
  "empty_record_scores =
     [(''Performance & Speed'', 1), (''Security & Compliance'', 1), (''SEO & Visibility'', 1),
      (''Mobile Responsiveness'', 1), (''First Impressions & Branding'', 2),
      (''Content Quality'', 3), (''Accessibility'', 1)]"

text \<open>A key of the record itself, such as \<^verbatim>\<open>issues\<close>.\<close>

definition top_level :: "pyval \<Rightarrow> string \<Rightarrow> pyval option" where
  "top_level r k = (case r of VDict d \<Rightarrow> map_of d k | _ \<Rightarrow> None)"

text \<open>A record with an int where a float is declared and bools where ints are.\<close>

definition int_and_bool_record :: pyval where
  "int_and_bool_record =
     VDict [(''basic'', VDict [(''load_time'', VInt 2)]),
            (''resources'', VDict [(''stylesheets'', VBool True)]),
            (''accessibility'', VDict [(''alt_text_images'', VBool False)])]"

text \<open>A world whose transport times out on every request.\<close>

definition timeout_world :: world where
  "timeout_world =
     \<lparr>timestamp = ''2024-01-01T00:00:00'',
      check_bracketed_host = no_bracket_check,
      session_get = (\<lambda>url. RequestException ''timed out''),
      elapsed = Finite 20\<rparr>"




text \<open>
  A sufficient condition for the scorer to return: the sections are dicts or missing,
  and the fields that it compares or divides are missing or numbers (the two image
  counts bools or ints within the range of a float), the two texts missing, false or
  with a length.
\<close>

definition absent_or :: "(pyval \<Rightarrow> bool) \<Rightarrow> pyval option \<Rightarrow> bool" where
  "absent_or P v = (case v of None \<Rightarrow> True | Some x \<Rightarrow> P x)"

definition count_sized :: "pyval \<Rightarrow> bool" where
  "count_sized v =
     (case v of
        VBool b \<Rightarrow> True
      | VInt i \<Rightarrow> fits_float (of_int i)
      | _ \<Rightarrow> False)"

definition sized_or_false :: "pyval \<Rightarrow> bool" where
  "sized_or_false v = (case py_len v of Inr n \<Rightarrow> True | Inl e \<Rightarrow> \<not> truthy v)"

definition scorable :: "pyval \<Rightarrow> bool" where
  "scorable r =
     (record_shaped r \<and>
      absent_or is_number (field r ''basic'' ''load_time'') \<and>
      absent_or is_number (field r ''performance'' ''requests'') \<and>
      absent_or is_number (field r ''performance'' ''dom_depth'') \<and>
      absent_or sized_or_false (field r ''meta'' ''title'') \<and>
      absent_or sized_or_false (field r ''meta'' ''description'') \<and>
      absent_or is_number (field r ''resources'' ''stylesheets'') \<and>
      absent_or count_sized (field r ''resources'' ''images'') \<and>
      absent_or count_sized (field r ''accessibility'' ''alt_text_images'') \<and>
      absent_or is_number (field r ''accessibility'' ''aria_attributes''))"

text \<open>
  The \<^verbatim>\<open>meta\<close> section of the SEO scenario, with a description of 100 characters; a
  record that has only this section; and one that also has a load time bound to a string.
\<close>

definition scenario_meta :: pydict where
  "scenario_meta =
     [(''title'', VStr []), (''description'', VStr (replicate 100 CHR ''d'')),
      (''viewport'', VBool True), (''canonical'', VStr []), (''og_tags'', VDict [])]"

definition scenario_record :: pyval where
  "scenario_record = VDict [(''meta'', VDict scenario_meta)]"

definition scenario_record_string_load_time :: pyval where
  "scenario_record_string_load_time =
     VDict [(''basic'', VDict [(''load_time'', VStr ''fast'')]), (''meta'', VDict scenario_meta)]"

section \<open>The loop over the sections\<close>

lemma section_of_simps:
  "map_of d s = None \<Longrightarrow> section_of d s = VDict []"
  "map_of d s = Some v \<Longrightarrow> section_of d s = v"
  by (simp_all add: section_of_def setdefault_def)

lemma each_section_Cons:
  "each_section body ((s, defs) # rest) d =
     bind (body defs (section_of d s)) (\<lambda>sec'. each_section body rest (AList.update s sec' d))"
  by (cases "map_of d s")
     (auto simp: section_of_def setdefault_def bind_def update_conv' split: sum.splits
           intro!: arg_cong[where f="each_section body rest"] map_of_eqI)

declare each_section.simps(2) [simp del]

lemma section_of_update_other:
  "s \<noteq> t \<Longrightarrow> section_of (AList.update t v d) s = section_of d s"
  by (simp add: section_of_def setdefault_def update_conv' split: option.splits)

lemma each_section_frame:
  "each_section body secs d = Inr d' \<Longrightarrow> s \<notin> fst ` set secs \<Longrightarrow> map_of d' s = map_of d s"
proof (induction secs arbitrary: d)
  case Nil
  then show ?case by simp
next
  case (Cons a secs)
  obtain t defs where a: "a = (t, defs)" by (cases a)
  from Cons.prems a obtain sec' where
    rest: "each_section body secs (AList.update t sec' d) = Inr d'"
    by (auto simp: each_section_Cons bind_def split: sum.splits)
  from Cons.prems a have "s \<noteq> t" "s \<notin> fst ` set secs" by auto
  with Cons.IH[OF rest] show ?case by (simp add: update_conv')
qed

lemma each_section_result:
  "each_section body secs d = Inr d' \<Longrightarrow> distinct (map fst secs) \<Longrightarrow> (s, defs) \<in> set secs \<Longrightarrow>
   \<exists>sec'. body defs (section_of d s) = Inr sec' \<and> map_of d' s = Some sec'"
proof (induction secs arbitrary: d)
  case Nil
  then show ?case by simp
next
  case (Cons a secs)
  obtain t tdefs where a: "a = (t, tdefs)" by (cases a)
  from Cons.prems a obtain sec' where
    body: "body tdefs (section_of d t) = Inr sec'" and
    rest: "each_section body secs (AList.update t sec' d) = Inr d'"
    by (auto simp: each_section_Cons bind_def split: sum.splits)
  from Cons.prems a have nt: "t \<notin> fst ` set secs" and ds: "distinct (map fst secs)" by auto
  show ?case
  proof (cases "(s, defs) = (t, tdefs)")
    case True
    have "map_of d' t = map_of (AList.update t sec' d) t"
      using rest nt by (rule each_section_frame)
    with True body show ?thesis by (simp add: update_conv')
  next
    case False
    with Cons.prems a have mem: "(s, defs) \<in> set secs" by auto
    with nt have "s \<noteq> t" by force
    then have "section_of (AList.update t sec' d) s = section_of d s"
      by (rule section_of_update_other)
    with Cons.IH[OF rest ds mem] show ?thesis by simp
  qed
qed

lemma each_section_fixpoint:
  "\<forall>(s, defs) \<in> set secs. \<exists>v. map_of d s = Some v \<and> body defs v = Inr v \<Longrightarrow>
   each_section body secs d = Inr d"
proof (induction secs)
  case Nil
  then show ?case by simp
next
  case (Cons a secs)
  obtain t defs where a: "a = (t, defs)" by (cases a)
  from Cons.prems a obtain v where v: "map_of d t = Some v" "body defs v = Inr v" by auto
  from Cons.prems have "each_section body secs d = Inr d" by (intro Cons.IH) auto
  with v show ?case
    unfolding a by (simp add: each_section_Cons section_of_simps bind_def update_triv)
qed

lemma each_section_returns:
  "distinct (map fst secs) \<Longrightarrow>
   \<forall>(s, defs) \<in> set secs. \<exists>sec'. body defs (section_of d s) = Inr sec' \<Longrightarrow>
   \<exists>d'. each_section body secs d = Inr d'"
proof (induction secs arbitrary: d)
  case Nil
  then show ?case by simp
next
  case (Cons a secs)
  obtain t defs where a: "a = (t, defs)" by (cases a)
  from Cons.prems a obtain sec' where body: "body defs (section_of d t) = Inr sec'" by auto
  from Cons.prems a have nt: "t \<notin> fst ` set secs" and ds: "distinct (map fst secs)" by auto
  have "\<forall>(s, sdefs) \<in> set secs. \<exists>x. body sdefs (section_of (AList.update t sec' d) s) = Inr x"
  proof (clarify)
    fix s sdefs assume mem: "(s, sdefs) \<in> set secs"
    with nt have "s \<noteq> t" by force
    then have "section_of (AList.update t sec' d) s = section_of d s"
      by (rule section_of_update_other)
    with Cons.prems(2) mem show "\<exists>x. body sdefs (section_of (AList.update t sec' d) s) = Inr x"
      by auto
  qed
  from Cons.IH[OF ds this] body show ?case
    unfolding a by (simp add: each_section_Cons bind_def)
qed

section \<open>Properties of the sanitizer\<close>

lemma isinstance_type_of_refl: "isinstance_type_of v v"
  by (cases v) simp_all

lemma fix_fields_ok_id: "fields_ok defs sec \<Longrightarrow> fix_fields defs sec = sec"
  by (induction defs arbitrary: sec) (auto simp: fields_ok_def)

lemma fix_fields_frame:
  "k \<notin> fst ` set defs \<Longrightarrow> map_of (fix_fields defs sec) k = map_of sec k"
  by (induction defs arbitrary: sec) (auto simp: update_conv' split: option.splits)

lemma fix_fields_value:
  "distinct (map fst defs) \<Longrightarrow> (k, dv) \<in> set defs \<Longrightarrow>
   map_of (fix_fields defs sec) k =
     Some (case map_of sec k of
             Some v \<Rightarrow> if isinstance_type_of v dv then v else dv
           | None \<Rightarrow> dv)"
proof (induction defs arbitrary: sec)
  case Nil
  then show ?case by simp
next
  case (Cons a defs)
  obtain key val where a: "a = (key, val)" by (cases a)
  let ?sec = "case map_of sec key of
          None \<Rightarrow> AList.update key val sec
        | Some v \<Rightarrow> if isinstance_type_of v val then sec else AList.update key val sec"
  from Cons.prems a have nk: "key \<notin> fst ` set defs" and d: "distinct (map fst defs)" by auto
  show ?case
  proof (cases "(k, dv) = (key, val)")
    case True
    have "map_of (fix_fields defs ?sec) key = map_of ?sec key"
      using nk by (rule fix_fields_frame)
    with True show ?thesis
      unfolding a by (auto simp: update_conv' split: option.splits)
  next
    case False
    with Cons.prems a have mem: "(k, dv) \<in> set defs" by auto
    with nk have "k \<noteq> key" by force
    then have "map_of ?sec k = map_of sec k"
      by (auto simp: update_conv' split: option.splits)
    with Cons.IH[OF d mem, of ?sec] show ?thesis
      unfolding a by simp
  qed
qed

lemma fix_fields_establishes:
  "distinct (map fst defs) \<Longrightarrow> fields_ok defs (fix_fields defs sec)"
  unfolding fields_ok_def
  by (auto simp: fix_fields_value isinstance_type_of_refl split: option.splits)

lemma fix_section_not_dict:
  "\<not> is_dict v \<Longrightarrow> fix_section defs v = Inr v' \<Longrightarrow> defs = [] \<and> v' = v"
  by (cases v; cases defs)
     (auto simp: fix_section_def is_dict_def bind_def split: sum.splits if_splits)

lemma fix_section_idem:
  "distinct (map fst defs) \<Longrightarrow> fix_section defs v = Inr v' \<Longrightarrow> fix_section defs v' = Inr v'"
proof (cases "is_dict v")
  case True
  assume "distinct (map fst defs)" "fix_section defs v = Inr v'"
  with True show ?thesis
    by (cases v) (auto simp: is_dict_def fix_section_def fix_fields_establishes fix_fields_ok_id)
next
  case False
  assume "fix_section defs v = Inr v'"
  from fix_section_not_dict[OF False this] this show ?thesis by simp
qed

lemma defaults_distinct:
  "distinct (map fst defaults)" "\<forall>(s, defs) \<in> set defaults. distinct (map fst defs)"
  by (simp_all add: defaults_def)

lemma sanitize_idem:
  assumes "each_section fix_section defaults d = Inr d'"
  shows "each_section fix_section defaults d' = Inr d'"
proof (rule each_section_fixpoint, clarify)
  fix s defs assume mem: "(s, defs) \<in> set defaults"
  from each_section_result[OF assms defaults_distinct(1) mem] obtain sec' where
    b: "fix_section defs (section_of d s) = Inr sec'" and m: "map_of d' s = Some sec'" by blast
  from mem defaults_distinct(2) have "distinct (map fst defs)" by auto
  from fix_section_idem[OF this b] m
  show "\<exists>v. map_of d' s = Some v \<and> fix_section defs v = Inr v" by simp
qed

lemma sanitize_returns:
  assumes "list_all (section_shaped d) (map fst defaults)"
  shows "\<exists>d'. each_section fix_section defaults d = Inr d'"
proof (rule each_section_returns[OF defaults_distinct(1)], clarify)
  fix s defs assume mem: "(s, defs) \<in> set defaults"
  with assms have "section_shaped d s" by (force simp: list_all_iff)
  then obtain sec where "section_of d s = VDict sec"
    by (cases "map_of d s")
       (auto simp: section_shaped_def section_of_simps split: pyval.splits)
  then show "\<exists>sec'. fix_section defs (section_of d s) = Inr sec'"
    by (simp add: fix_section_def)
qed

text \<open>
  Claim C4. The sanitizer is idempotent: running \<^verbatim>\<open>ensure_defaults\<close> on its own
  result gives that result again, for every argument (when the first run raises, so does
  the composition, with the same exception). On every record whose sections are dicts or
  missing, whatever its fields hold, the sanitizer returns.
\<close>

theorem ensure_defaults_idempotent:
  "bind (ensure_defaults r) ensure_defaults = ensure_defaults r \<and>
   (record_shaped r \<longrightarrow> (\<exists>r'. ensure_defaults r = Inr r'))"
proof
  show "bind (ensure_defaults r) ensure_defaults = ensure_defaults r"
  proof (cases r)
    case (VDict d)
    show ?thesis
    proof (cases "each_section fix_section defaults d")
      case (Inl e)
      with VDict show ?thesis by (simp add: ensure_defaults_def bind_def)
    next
      case (Inr d')
      from sanitize_idem[OF this] Inr VDict show ?thesis
        by (simp add: ensure_defaults_def bind_def)
    qed
  qed (simp_all add: ensure_defaults_def bind_def)
  show "record_shaped r \<longrightarrow> (\<exists>r'. ensure_defaults r = Inr r')"
  proof
    assume "record_shaped r"
    then obtain d where r: "r = VDict d" and sh: "list_all (section_shaped d) (map fst defaults)"
      by (cases r) (auto simp: record_shaped_def)
    from sanitize_returns[OF sh] r show "\<exists>r'. ensure_defaults r = Inr r'"
      by (auto simp: ensure_defaults_def bind_def)
  qed
qed

theorem ensure_defaults_idempotent_witness:
  "bind (ensure_defaults malformed_record) ensure_defaults = ensure_defaults malformed_record \<and>
   record_shaped malformed_record \<and> (\<exists>r'. ensure_defaults malformed_record = Inr r')"
proof -
  have sh: "record_shaped malformed_record"
    by (simp add: record_shaped_def malformed_record_def defaults_def section_shaped_def)
  with ensure_defaults_idempotent[of malformed_record] show ?thesis by blast
qed

lemma ensure_defaults_field:
  assumes e: "ensure_defaults r = Inr r'" and f: "field r s k = Some v"
    and s: "(s, defs) \<in> set defaults" and k: "(k, dv) \<in> set defs"
  shows "field r' s k = Some (if isinstance_type_of v dv then v else dv)"
proof -
  from e obtain d d' where r: "r = VDict d" "r' = VDict d'"
    and ea: "each_section fix_section defaults d = Inr d'"
    by (cases r) (auto simp: ensure_defaults_def bind_def split: sum.splits)
  from f r obtain sec where sec: "map_of d s = Some (VDict sec)" "map_of sec k = Some v"
    by (auto simp: field_def split: option.splits pyval.splits)
  from each_section_result[OF ea defaults_distinct(1) s] sec obtain sec' where
    "fix_section defs (VDict sec) = Inr sec'" "map_of d' s = Some sec'"
    by (auto simp: section_of_simps)
  then have m: "map_of d' s = Some (VDict (fix_fields defs sec))"
    by (simp add: fix_section_def)
  from s defaults_distinct(2) have "distinct (map fst defs)" by auto
  from fix_fields_value[OF this k, of sec] sec m r show ?thesis
    by (simp add: field_def)
qed

text \<open>
  Claim C9. The sanitizer tests \<^verbatim>\<open>isinstance(value, type(default))\<close>: an int in
  \<^verbatim>\<open>basic.load_time\<close>, whose default is a float, is replaced by the default 0.0,
  and a bool in \<^verbatim>\<open>resources.stylesheets\<close> or \<^verbatim>\<open>accessibility.alt_text_images\<close>,
  whose defaults are ints, passes the test and stays.
\<close>

theorem ensure_defaults_exact_types:
  "record_shaped r \<Longrightarrow>
   \<exists>r'. ensure_defaults r = Inr r' \<and>
     (\<forall>n. field r ''basic'' ''load_time'' = Some (VInt n) \<longrightarrow>
          field r' ''basic'' ''load_time'' = Some (VFloat (Finite 0))) \<and>
     (\<forall>b. field r ''resources'' ''stylesheets'' = Some (VBool b) \<longrightarrow>
          field r' ''resources'' ''stylesheets'' = Some (VBool b)) \<and>
     (\<forall>b. field r ''accessibility'' ''alt_text_images'' = Some (VBool b) \<longrightarrow>
          field r' ''accessibility'' ''alt_text_images'' = Some (VBool b))"
proof -
  assume "record_shaped r"
  then obtain d where r: "r = VDict d" and sh: "list_all (section_shaped d) (map fst defaults)"
    by (cases r) (auto simp: record_shaped_def)
  from sanitize_returns[OF sh] r obtain r' where e: "ensure_defaults r = Inr r'"
    by (auto simp: ensure_defaults_def bind_def)
  have a: "field r' ''basic'' ''load_time'' = Some (VFloat (Finite 0))"
    if "field r ''basic'' ''load_time'' = Some (VInt n)" for n
    using ensure_defaults_field[OF e that, of "[(''load_time'', VFloat (Finite 0))]" "VFloat (Finite 0)"]
    by (simp add: defaults_def)
  have b: "field r' ''resources'' ''stylesheets'' = Some (VBool b)"
    if "field r ''resources'' ''stylesheets'' = Some (VBool b)" for b
    using ensure_defaults_field[OF e that, of "[(''stylesheets'', VInt 0)]" "VInt 0"]
    by (simp add: defaults_def)
  have c: "field r' ''accessibility'' ''alt_text_images'' = Some (VBool b)"
    if "field r ''accessibility'' ''alt_text_images'' = Some (VBool b)" for b
    using ensure_defaults_field[OF e that,
            of "[(''alt_text_images'', VInt 0), (''aria_attributes'', VInt 0),
                 (''lang_attribute'', VBool False)]" "VInt 0"]
    by (simp add: defaults_def)
  from e a b c show ?thesis by blast
qed

theorem ensure_defaults_exact_types_witness:
  "record_shaped int_and_bool_record \<and>
   field int_and_bool_record ''basic'' ''load_time'' = Some (VInt 2) \<and>
   field int_and_bool_record ''resources'' ''stylesheets'' = Some (VBool True) \<and>
   field int_and_bool_record ''accessibility'' ''alt_text_images'' = Some (VBool False) \<and>
   (\<exists>r'. ensure_defaults int_and_bool_record = Inr r' \<and>
      field r' ''basic'' ''load_time'' = Some (VFloat (Finite 0)) \<and>
      field r' ''resources'' ''stylesheets'' = Some (VBool True) \<and>
      field r' ''accessibility'' ''alt_text_images'' = Some (VBool False))"
proof -
  have sh: "record_shaped int_and_bool_record"
    by (simp add: record_shaped_def int_and_bool_record_def defaults_def section_shaped_def)
  have f: "field int_and_bool_record ''basic'' ''load_time'' = Some (VInt 2)"
    "field int_and_bool_record ''resources'' ''stylesheets'' = Some (VBool True)"
    "field int_and_bool_record ''accessibility'' ''alt_text_images'' = Some (VBool False)"
    by (simp_all add: field_def int_and_bool_record_def)
  from ensure_defaults_exact_types[OF sh] f sh show ?thesis by blast
qed

section \<open>Properties of the validator\<close>

lemmas validate_defs =
  validate_url_def strip_def is_space_def startswith_def check_url_def urlparse_def
  split_scheme_def is_alpha_def is_scheme_char_def lower_char_def html_escape_def
  replace_char_def bind_def

lemma validate_example:
  "validate_url chk (VStr ''https://example.com/?a=1&b=2'') = Inr ''https://example.com/?a=1&amp;b=2''"
  by (simp add: validate_defs)

lemma validate_example_again:
  "validate_url chk (VStr ''https://example.com/?a=1&amp;b=2'') = Inr ''https://example.com/?a=1&amp;amp;b=2''"
  by (simp add: validate_defs)

lemma scan_website_requests:
  "validate_url (check_bracketed_host w) url = Inr v \<Longrightarrow> fst (scan_website w url) = [v]"
  by (simp add: scan_website_def Let_def split: fetch_outcome.splits)

lemma index_post_requests:
  assumes "strip u \<noteq> []"
    and "validate_url (check_bracketed_host w) (VStr (strip u)) = Inr v1"
    and "validate_url (check_bracketed_host w) (VStr v1) = Inr v2"
  shows "fst (index_post w u) = [v2]"
proof -
  from assms(3) have "fst (scan_website w (VStr v1)) = [v2]" by (rule scan_website_requests)
  then obtain res where "scan_website w (VStr v1) = ([v2], res)"
    by (cases "scan_website w (VStr v1)") simp
  with assms(1,2) show ?thesis
    by (simp add: index_post_def Let_def split: sum.splits)
qed

text \<open>
  Claim C10. \<^verbatim>\<open>validate_url\<close> is not idempotent: on a valid URL with an ampersand
  the second call escapes the ampersand of \<^verbatim>\<open>&amp;\<close> again. The route handler
  validates the form value and \<^verbatim>\<open>scan_website\<close> validates the result once more,
  so the URL requested from the transport is the one escaped twice, not the one supplied.
\<close>

theorem validate_url_not_idempotent:
  "validate_url chk (VStr ''https://example.com/?a=1&b=2'') = Inr ''https://example.com/?a=1&amp;b=2'' \<and>
   validate_url chk (VStr ''https://example.com/?a=1&amp;b=2'') =
     Inr ''https://example.com/?a=1&amp;amp;b=2'' \<and>
   fst (index_post w ''https://example.com/?a=1&b=2'') = [''https://example.com/?a=1&amp;amp;b=2'']"
proof -
  have s: "strip ''https://example.com/?a=1&b=2'' = ''https://example.com/?a=1&b=2''"
    by (simp add: strip_def is_space_def)
  have "fst (index_post w ''https://example.com/?a=1&b=2'') = [''https://example.com/?a=1&amp;amp;b=2'']"
    using index_post_requests[of "''https://example.com/?a=1&b=2''" w
            "''https://example.com/?a=1&amp;b=2''" "''https://example.com/?a=1&amp;amp;b=2''"]
          validate_example[of "check_bracketed_host w"]
          validate_example_again[of "check_bracketed_host w"]
    by (simp only: s) simp
  then show ?thesis using validate_example validate_example_again by simp
qed

lemma check_url_bare_scheme:
  "check_url chk ''https://'' = Inl (ValueError ''Invalid URL structure'')"
  by (simp add: check_url_def urlparse_def split_scheme_def is_alpha_def is_scheme_char_def
        lower_char_def bind_def)

text \<open>
  Claim C6, as amended. Every string that is blank after trimming is rejected with a
  \<^verbatim>\<open>ValueError\<close>. The emptiness test comes before the trimming: only the empty
  string gets the message \<^verbatim>\<open>URL cannot be empty\<close>; a string of white space is
  trimmed, prefixed to \<^verbatim>\<open>https://\<close> and rejected for its structure.
\<close>

theorem validate_url_blank:
  "strip s = [] \<Longrightarrow>
   validate_url chk (VStr s) =
     Inl (ValueError (if s = [] then ''URL cannot be empty''
                      else ''Invalid URL: Invalid URL structure''))"
  by (simp add: validate_url_def startswith_def check_url_bare_scheme)

theorem validate_url_blank_witness:
  "strip [CHR 0x09, CHR '' ''] = [] \<and>
   validate_url no_bracket_check (VStr [CHR 0x09, CHR '' '']) =
     Inl (ValueError ''Invalid URL: Invalid URL structure'')"
proof -
  have s: "strip [CHR 0x09, CHR '' ''] = []" by (simp add: strip_def is_space_def)
  from validate_url_blank[OF s, of no_bracket_check] s show ?thesis by simp
qed

text \<open>
  Claim C6, as stated, fails on three spaces: the string is blank after trimming, and the
  error is not the one for empty input.
\<close>

theorem validate_url_whitespace_counterexample:
  "strip ''   '' = [] \<and>
   validate_url no_bracket_check (VStr ''   '') \<noteq> Inl (ValueError ''URL cannot be empty'')"
  by (simp add: validate_defs)

section \<open>Properties of the scorer\<close>

lemmas score_defs =
  auto_score_website_def is_dict_def required_sections_def each_section.simps setdefault_def
  bind_def compute_scores_def py_getitem_def py_get_def performance_score_def perf_score_def
  load_time_points_def page_size_points_def requests_points_def dom_depth_points_def
  py_lt_def py_gt_def security_score_def seo_score_def length_between_def mobile_score_def
  first_impressions_score_def content_score_def accessibility_score_def alt_text_points_def

text \<open>
  Claim C5. The thresholds are exact and a tie goes to the lower bracket. On every finite
  number the load time adds 4 below 1.5, 3 from 1.5 to below 3, 2 from 3 to below 5,
  1 from 5 to below 8 and 0 from 8 on; the page size adds 2 below 300, 1 from 300 to
  below 800 and 0 from 800 on. In particular a load time of exactly 1.5 adds 3 and a
  page size of exactly 300 adds 1. The accumulator is the sum of the four contributions.
\<close>

theorem threshold_ties_lower_bracket:
  "load_time_points (VFloat (Finite x)) =
     Inr (if x < 3 / 2 then 4 else if x < 3 then 3 else if x < 5 then 2 else if x < 8 then 1 else 0) \<and>
   load_time_points (VInt i) =
     Inr (if of_int i < (3 / 2 :: rat) then 4 else if i < 3 then 3 else if i < 5 then 2
          else if i < 8 then 1 else 0) \<and>
   page_size_points (VFloat (Finite y)) = Inr (if y < 300 then 2 else if y < 800 then 1 else 0) \<and>
   page_size_points (VInt j) = Inr (if j < 300 then 2 else if j < 800 then 1 else 0) \<and>
   load_time_points (VFloat (Finite (3 / 2))) = Inr 3 \<and>
   page_size_points (VFloat (Finite 300)) = Inr 1 \<and>
   page_size_points (VInt 300) = Inr 1 \<and>
   perf_score load_time page_size requests dom_depth =
     bind (load_time_points load_time) (\<lambda>a.
     bind (page_size_points page_size) (\<lambda>b.
     bind (requests_points requests) (\<lambda>c.
     bind (dom_depth_points dom_depth) (\<lambda>d. Inr (a + b + c + d))))) \<and>
   perf_score (VFloat (Finite (3 / 2))) page_size requests dom_depth =
     bind (page_size_points page_size) (\<lambda>b.
     bind (requests_points requests) (\<lambda>c.
     bind (dom_depth_points dom_depth) (\<lambda>d. Inr (3 + b + c + d)))) \<and>
   perf_score load_time (VFloat (Finite 300)) requests dom_depth =
     bind (load_time_points load_time) (\<lambda>a.
     bind (requests_points requests) (\<lambda>c.
     bind (dom_depth_points dom_depth) (\<lambda>d. Inr (a + 1 + c + d))))"
proof -
  have ltx: "load_time_points (VFloat (Finite x)) =
     Inr (if x < 3 / 2 then 4 else if x < 3 then 3 else if x < 5 then 2 else if x < 8 then 1 else 0)"
    for x
    by (simp add: load_time_points_def py_lt_def bind_def)
  have lti: "load_time_points (VInt i) =
     Inr (if of_int i < (3 / 2 :: rat) then 4 else if i < 3 then 3 else if i < 5 then 2
          else if i < 8 then 1 else 0)"
    by (simp add: load_time_points_def py_lt_def bind_def)
  have psy: "page_size_points (VFloat (Finite y)) = Inr (if y < 300 then 2 else if y < 800 then 1 else 0)"
    for y
    by (simp add: page_size_points_def py_lt_def bind_def)
  have psj: "page_size_points (VInt j) = Inr (if j < 300 then 2 else if j < 800 then 1 else 0)"
    for j
    by (simp add: page_size_points_def py_lt_def bind_def)
  have lt: "load_time_points (VFloat (Finite (3 / 2))) = Inr 3"
    by (simp add: ltx)
  have ps: "page_size_points (VFloat (Finite 300)) = Inr 1"
    by (simp add: psy)
  have psi: "page_size_points (VInt 300) = Inr 1"
    by (simp add: psj)
  have acc: "perf_score load_time page_size requests dom_depth =
     bind (load_time_points load_time) (\<lambda>a.
     bind (page_size_points page_size) (\<lambda>b.
     bind (requests_points requests) (\<lambda>c.
     bind (dom_depth_points dom_depth) (\<lambda>d. Inr (a + b + c + d)))))"
    for load_time page_size
    by (simp add: perf_score_def)
  have a1: "perf_score (VFloat (Finite (3 / 2))) page_size requests dom_depth =
     bind (page_size_points page_size) (\<lambda>b.
     bind (requests_points requests) (\<lambda>c.
     bind (dom_depth_points dom_depth) (\<lambda>d. Inr (3 + b + c + d))))"
    by (simp add: acc lt bind_def)
  have a2: "perf_score load_time (VFloat (Finite 300)) requests dom_depth =
     bind (load_time_points load_time) (\<lambda>a.
     bind (requests_points requests) (\<lambda>c.
     bind (dom_depth_points dom_depth) (\<lambda>d. Inr (a + 1 + c + d))))"
    by (simp add: acc ps bind_def)
  from ltx[of x] lti psy[of y] psj[of j] lt ps psi acc[of load_time page_size] a1 a2
  show ?thesis by (simp only: simp_thms)
qed

text \<open>
  Claim C2, at the input that the claim names: with \<^verbatim>\<open>basic.load_time\<close> bound to a
  string the scorer keeps the string (only a missing key gets the default) and the first
  comparison raises \<^verbatim>\<open>TypeError\<close>.
\<close>

theorem score_raises_on_string_load_time:
  "auto_score_website now (VDict [(''basic'', VDict [(''load_time'', VStr ''fast'')])]) response_text
     = Inl TypeError"
  by (simp add: auto_score_website_def is_dict_def required_sections_def each_section.simps
     setdefault_def bind_def compute_scores_def py_getitem_def performance_score_def perf_score_def load_time_points_def py_lt_def)

lemma compute_scores_keys:
  "compute_scores r t = Inr sc \<Longrightarrow>
   map fst sc = [''Performance & Speed'', ''Security & Compliance'', ''SEO & Visibility'',
                 ''Mobile Responsiveness'', ''First Impressions & Branding'', ''Content Quality'',
                 ''Accessibility'']"
  by (auto simp: compute_scores_def bind_def split: sum.splits)

lemma score_empty_record:
  "auto_score_website now (VDict []) NoText = Inr (empty_record_completed, empty_record_scores)"
  by (simp add: score_defs empty_record_completed_def empty_record_scores_def)

lemma dataframe_empty_record:
  "create_results_dataframe empty_record_scores url = Inl (KeyError ''Content Quality'')"
  by (simp add: empty_record_scores_def recommendation_def CATEGORIES_def py_index_def bind_def)

text \<open>
  Claim C1, at the empty record: the scorer returns a score for
  \<^verbatim>\<open>Content Quality\<close>, which is no key of \<^verbatim>\<open>CATEGORIES\<close>, and
  \<^verbatim>\<open>create_results_dataframe\<close> raises \<^verbatim>\<open>KeyError\<close> on it.
\<close>

theorem score_category_outside_catalog:
  "auto_score_website now (VDict []) NoText = Inr (empty_record_completed, empty_record_scores) \<and>
   ''Content Quality'' \<in> set (map fst empty_record_scores) \<and>
   ''Content Quality'' \<notin> set (map fst CATEGORIES) \<and>
   create_results_dataframe empty_record_scores url = Inl (KeyError ''Content Quality'')"
proof -
  have "''Content Quality'' \<in> set (map fst empty_record_scores)"
    by (simp add: empty_record_scores_def)
  moreover have "''Content Quality'' \<notin> set (map fst CATEGORIES)"
    by (simp add: CATEGORIES_def)
  ultimately show ?thesis
    using score_empty_record dataframe_empty_record by simp
qed




lemma fill_keys_dict:
  "\<exists>sec'. fill_keys defs (VDict sec) = Inr (VDict sec')"
  by (induction defs arbitrary: sec) auto


lemma required_sections_facts:
  "distinct (map fst required_sections)"
  "\<forall>(s, defs) \<in> set required_sections.
     \<forall>(k, dv) \<in> set defs. k = ''page_size_kb'' \<longrightarrow> is_number (py_float dv)"
  by (simp_all add: required_sections_def)





















subsection \<open>The scorer returns on well-typed records\<close>

lemma as_float_number: "is_number v \<Longrightarrow> \<exists>x. as_float v = Some x"
  by (cases v) simp_all

lemma py_lt_number: "is_number v \<Longrightarrow> is_number c \<Longrightarrow> \<exists>b. py_lt v c = Inr b"
  by (auto simp: py_lt_def dest!: as_float_number)

lemma py_gt_number: "is_number v \<Longrightarrow> is_number c \<Longrightarrow> \<exists>b. py_gt v c = Inr b"
  by (auto simp: py_gt_def dest!: as_float_number)

lemma load_time_points_returns: "is_number v \<Longrightarrow> \<exists>n. load_time_points v = Inr n"
proof -
  assume n: "is_number v"
  from py_lt_number[OF n, of "VFloat (Finite (3 / 2))"] py_lt_number[OF n, of "VInt 3"]
       py_lt_number[OF n, of "VInt 5"] py_lt_number[OF n, of "VInt 8"]
  show ?thesis by (auto simp: load_time_points_def bind_def)
qed

lemma page_size_points_returns: "is_number v \<Longrightarrow> \<exists>n. page_size_points v = Inr n"
proof -
  assume n: "is_number v"
  from py_lt_number[OF n, of "VInt 300"] py_lt_number[OF n, of "VInt 800"]
  show ?thesis by (auto simp: page_size_points_def bind_def)
qed

lemma requests_points_returns: "is_number v \<Longrightarrow> \<exists>n. requests_points v = Inr n"
proof -
  assume n: "is_number v"
  from py_lt_number[OF n, of "VInt 15"] py_lt_number[OF n, of "VInt 30"]
  show ?thesis by (auto simp: requests_points_def bind_def)
qed

lemma dom_depth_points_returns: "is_number v \<Longrightarrow> \<exists>n. dom_depth_points v = Inr n"
proof -
  assume n: "is_number v"
  from py_lt_number[OF n, of "VInt 15"] py_gt_number[OF n, of "VInt 30"]
  show ?thesis by (auto simp: dom_depth_points_def bind_def)
qed

lemma performance_score_returns:
  assumes "map_of b ''load_time'' = Some lt" "is_number lt"
    and "map_of p ''page_size_kb'' = Some ps" "is_number ps"
    and "map_of p ''requests'' = Some rq" "is_number rq"
    and "map_of p ''dom_depth'' = Some dd" "is_number dd"
  shows "\<exists>n. performance_score (VDict b) (VDict p) = Inr n"
  using assms load_time_points_returns[of lt] page_size_points_returns[of ps]
    requests_points_returns[of rq] dom_depth_points_returns[of dd]
  by (auto simp: performance_score_def perf_score_def py_getitem_def bind_def)

lemma security_score_returns: "\<exists>n. security_score (VDict s) = Inr n"
  by (simp add: security_score_def py_get_def bind_def)

lemma first_impressions_score_returns: "\<exists>n. first_impressions_score (VDict m) = Inr n"
  by (simp add: first_impressions_score_def py_get_def bind_def)

lemma length_between_returns: "sized_or_false v \<Longrightarrow> \<exists>b. length_between v lo hi = Inr b"
  by (auto simp: length_between_def sized_or_false_def bind_def split: sum.splits)

lemma seo_score_returns:
  assumes "absent_or sized_or_false (map_of m ''title'')"
    and "absent_or sized_or_false (map_of m ''description'')"
  shows "\<exists>n. seo_score (VDict m) = Inr n"
proof -
  have t: "sized_or_false (case map_of m ''title'' of Some v \<Rightarrow> v | None \<Rightarrow> VStr [])"
    using assms(1) by (auto simp: absent_or_def sized_or_false_def split: option.splits)
  have d: "sized_or_false (case map_of m ''description'' of Some v \<Rightarrow> v | None \<Rightarrow> VStr [])"
    using assms(2) by (auto simp: absent_or_def sized_or_false_def split: option.splits)
  from length_between_returns[OF t, of 30 60] length_between_returns[OF d, of 50 160]
  show ?thesis by (auto simp: seo_score_def py_get_def bind_def)
qed

lemma mobile_score_returns:
  assumes "absent_or is_number (map_of rs ''stylesheets'')"
  shows "\<exists>n. mobile_score (VDict m) (VDict rs) = Inr n"
proof -
  have "is_number (case map_of rs ''stylesheets'' of Some v \<Rightarrow> v | None \<Rightarrow> VInt 0)"
    using assms by (auto simp: absent_or_def split: option.splits)
  from py_gt_number[OF this, of "VInt 0"]
  show ?thesis by (auto simp: mobile_score_def py_get_def bind_def)
qed

lemma count_sized_number: "count_sized v \<Longrightarrow> is_number v"
  by (cases v) (simp_all add: count_sized_def)

lemma count_sized_int:
  "count_sized v \<Longrightarrow>
   \<not> is_float v \<and> (\<exists>i. as_int v = Some i \<and> as_float v = Some (Finite (of_int i)))"
  by (cases v) (simp_all add: count_sized_def is_float_def)

lemma fits_float_quotient:
  fixes p q :: int
  assumes "fits_float (of_int p)" "0 < q"
  shows "fits_float (of_int p / of_int q)"
proof -
  from assms(2) have "1 \<le> q" by simp
  then have q1: "(1::rat) \<le> of_int q" by simp
  have "\<bar>(of_int p :: rat)\<bar> * 1 \<le> \<bar>of_int p\<bar> * of_int q"
    by (rule mult_left_mono[OF q1]) simp
  then have "\<bar>(of_int p :: rat)\<bar> / of_int q \<le> \<bar>of_int p\<bar>"
    using assms(2) by (simp add: pos_divide_le_eq)
  moreover have "\<bar>(of_int p :: rat) / of_int q\<bar> = \<bar>of_int p\<bar> / of_int q"
    using assms(2) by simp
  ultimately have "\<bar>(of_int p :: rat) / of_int q\<bar> \<le> \<bar>of_int p\<bar>"
    by (simp only:)
  then show ?thesis
    using assms(1) unfolding fits_float_def by (rule le_less_trans)
qed

lemma as_int_fits: "count_sized v \<Longrightarrow> as_int v = Some p \<Longrightarrow> fits_float (of_int p)"
  by (cases v) (auto simp: count_sized_def fits_float_def split: if_splits)

lemma py_truediv_returns:
  assumes a: "count_sized alt" and t: "count_sized tot" and pos: "py_gt tot (VInt 0) = Inr True"
  shows "\<exists>f. py_truediv alt tot = Inr (VFloat f)"
proof -
  from count_sized_int[OF a] obtain p where
    p: "\<not> is_float alt" "as_int alt = Some p" by blast
  from count_sized_int[OF t] obtain q where
    q: "\<not> is_float tot" "as_int tot = Some q" "as_float tot = Some (Finite (of_int q))" by blast
  from pos q have qpos: "0 < q" by (simp add: py_gt_def)
  from fits_float_quotient[OF as_int_fits[OF a p(2)] qpos] p q qpos show ?thesis
    by (simp add: py_truediv_def)
qed

lemma alt_text_points_returns:
  assumes "count_sized tot" "count_sized alt"
  shows "\<exists>n. alt_text_points tot alt = Inr n"
proof -
  from py_gt_number[OF count_sized_number[OF assms(1)], of "VInt 0"] obtain b where
    b: "py_gt tot (VInt 0) = Inr b" by auto
  show ?thesis
  proof (cases b)
    case False
    with b show ?thesis by (simp add: alt_text_points_def bind_def)
  next
    case True
    with b py_truediv_returns[OF assms(2,1)] obtain f where
      f: "py_truediv alt tot = Inr (VFloat f)" by auto
    from py_gt_number[of "VFloat f" "VFloat (Finite (round_double (9 / 10)))"]
         py_gt_number[of "VFloat f" "VFloat (Finite (1 / 2))"] b True f
    show ?thesis by (auto simp: alt_text_points_def bind_def)
  qed
qed

lemma accessibility_score_returns:
  assumes "absent_or count_sized (map_of rs ''images'')"
    and "absent_or count_sized (map_of a ''alt_text_images'')"
    and "absent_or is_number (map_of a ''aria_attributes'')"
  shows "\<exists>n. accessibility_score (VDict rs) (VDict a) = Inr n"
proof -
  have i: "count_sized (case map_of rs ''images'' of Some v \<Rightarrow> v | None \<Rightarrow> VInt 0)"
    using assms(1) by (auto simp: absent_or_def count_sized_def fits_float_def split: option.splits)
  have al: "count_sized (case map_of a ''alt_text_images'' of Some v \<Rightarrow> v | None \<Rightarrow> VInt 0)"
    using assms(2) by (auto simp: absent_or_def count_sized_def fits_float_def split: option.splits)
  have ar: "is_number (case map_of a ''aria_attributes'' of Some v \<Rightarrow> v | None \<Rightarrow> VInt 0)"
    using assms(3) by (auto simp: absent_or_def split: option.splits)
  from alt_text_points_returns[OF i al] py_gt_number[OF ar, of "VInt 0"]
  show ?thesis by (auto simp: accessibility_score_def py_get_def bind_def)
qed

lemma shaped_section:
  "section_shaped d s \<Longrightarrow>
   \<exists>sec. section_of d s = VDict sec \<and> (\<forall>k. map_of sec k = field (VDict d) s k)"
  by (cases "map_of d s")
     (auto simp: section_shaped_def section_of_simps field_def split: pyval.splits)

lemma fill_basic:
  "fill_keys [(''load_time'', VFloat (Finite 8))] (VDict sec) = Inr v' \<Longrightarrow>
   absent_or is_number (map_of sec ''load_time'') \<Longrightarrow>
   \<exists>b. v' = VDict b \<and> (\<exists>lt. map_of b ''load_time'' = Some lt \<and> is_number lt)"
  by (auto simp: setdefault_def update_conv' absent_or_def split: option.splits)

lemma fill_performance:
  "fill_keys [(''page_size_kb'', VFloat (Finite 1000)), (''requests'', VInt 30),
              (''dom_depth'', VInt 20)] (VDict sec) = Inr v' \<Longrightarrow>
   absent_or is_number (map_of sec ''requests'') \<Longrightarrow>
   absent_or is_number (map_of sec ''dom_depth'') \<Longrightarrow>
   \<exists>p. v' = VDict p \<and> (\<exists>x. map_of p ''page_size_kb'' = Some x \<and> is_number x) \<and>
       (\<exists>x. map_of p ''requests'' = Some x \<and> is_number x) \<and>
       (\<exists>x. map_of p ''dom_depth'' = Some x \<and> is_number x)"
  by (auto simp: setdefault_def update_conv' absent_or_def split: option.splits if_splits)

lemma fill_returns:
  assumes "list_all (section_shaped d) (map fst required_sections)"
  shows "\<exists>d'. each_section fill_keys required_sections d = Inr d'"
proof (rule each_section_returns[OF required_sections_facts(1)], clarify)
  fix s defs assume mem: "(s, defs) \<in> set required_sections"
  with assms have "section_shaped d s" by (force simp: list_all_iff)
  from shaped_section[OF this] obtain sec where "section_of d s = VDict sec" by blast
  with fill_keys_dict[of defs sec]
  show "\<exists>sec'. fill_keys defs (section_of d s) = Inr sec'" by auto
qed

lemma filled_section:
  assumes fill: "each_section fill_keys required_sections d = Inr d'"
    and mem: "(s, defs) \<in> set required_sections"
    and sh: "section_shaped d s"
  shows "\<exists>sec v'. (\<forall>k. map_of sec k = field (VDict d) s k) \<and>
           fill_keys defs (VDict sec) = Inr v' \<and> map_of d' s = Some v'"
proof -
  from shaped_section[OF sh] obtain sec where
    sec: "section_of d s = VDict sec" "\<forall>k. map_of sec k = field (VDict d) s k" by blast
  from each_section_result[OF fill required_sections_facts(1) mem] sec show ?thesis by auto
qed

lemma score_returns:
  assumes "scorable r"
  shows "\<exists>r' sc. auto_score_website now r t = Inr (r', sc)"
proof -
  from assms obtain d where r: "r = VDict d"
    and sh: "list_all (section_shaped d) (map fst defaults)"
    by (cases r) (auto simp: scorable_def record_shaped_def)
  from sh have shaped: "section_shaped d ''basic''" "section_shaped d ''performance''"
    "section_shaped d ''security''" "section_shaped d ''meta''"
    "section_shaped d ''accessibility''" "section_shaped d ''resources''"
    by (simp_all add: defaults_def)
  then have "list_all (section_shaped d) (map fst required_sections)"
    by (simp add: required_sections_def)
  from fill_returns[OF this] obtain d' where
    fill: "each_section fill_keys required_sections d = Inr d'" by blast
  from filled_section[OF fill _ shaped(1), of "[(''load_time'', VFloat (Finite 8))]"]
  obtain sb vb where sb: "\<forall>k. map_of sb k = field r ''basic'' k"
    "fill_keys [(''load_time'', VFloat (Finite 8))] (VDict sb) = Inr vb" "map_of d' ''basic'' = Some vb"
    by (auto simp: required_sections_def r)
  from fill_basic[OF sb(2)] sb(1) assms obtain b lt where
    b: "vb = VDict b" "map_of b ''load_time'' = Some lt" "is_number lt"
    by (auto simp: scorable_def)
  from filled_section[OF fill _ shaped(2),
         of "[(''page_size_kb'', VFloat (Finite 1000)), (''requests'', VInt 30), (''dom_depth'', VInt 20)]"]
  obtain sp vp where sp: "\<forall>k. map_of sp k = field r ''performance'' k"
    "fill_keys [(''page_size_kb'', VFloat (Finite 1000)), (''requests'', VInt 30),
                (''dom_depth'', VInt 20)] (VDict sp) = Inr vp" "map_of d' ''performance'' = Some vp"
    by (auto simp: required_sections_def r)
  from fill_performance[OF sp(2)] sp(1) assms obtain p ps rq dd where
    p: "vp = VDict p" "map_of p ''page_size_kb'' = Some ps" "is_number ps"
       "map_of p ''requests'' = Some rq" "is_number rq"
       "map_of p ''dom_depth'' = Some dd" "is_number dd"
    by (auto simp: scorable_def)
  from filled_section[OF fill _ shaped(3), of "[]"]
  obtain se where se: "map_of d' ''security'' = Some (VDict se)"
    by (auto simp: required_sections_def)
  from filled_section[OF fill _ shaped(4), of "[]"]
  obtain m where m: "\<forall>k. map_of m k = field r ''meta'' k" "map_of d' ''meta'' = Some (VDict m)"
    by (auto simp: required_sections_def r)
  from filled_section[OF fill _ shaped(5), of "[]"]
  obtain a where a: "\<forall>k. map_of a k = field r ''accessibility'' k"
    "map_of d' ''accessibility'' = Some (VDict a)"
    by (auto simp: required_sections_def r)
  from filled_section[OF fill _ shaped(6), of "[]"]
  obtain rs where rs: "\<forall>k. map_of rs k = field r ''resources'' k"
    "map_of d' ''resources'' = Some (VDict rs)"
    by (auto simp: required_sections_def r)
  from performance_score_returns[OF b(2,3) p(2-7)] obtain n1 where
    n1: "performance_score (VDict b) (VDict p) = Inr n1" by blast
  from security_score_returns obtain n2 where n2: "security_score (VDict se) = Inr n2" by blast
  from assms m(1) have "absent_or sized_or_false (map_of m ''title'')"
    "absent_or sized_or_false (map_of m ''description'')" by (simp_all add: scorable_def)
  from seo_score_returns[OF this] obtain n3 where n3: "seo_score (VDict m) = Inr n3" by blast
  from assms rs(1) have "absent_or is_number (map_of rs ''stylesheets'')"
    by (simp add: scorable_def)
  from mobile_score_returns[OF this] obtain n4 where
    n4: "mobile_score (VDict m) (VDict rs) = Inr n4" by blast
  from first_impressions_score_returns obtain n5 where
    n5: "first_impressions_score (VDict m) = Inr n5" by blast
  from assms rs(1) a(1) have "absent_or count_sized (map_of rs ''images'')"
    "absent_or count_sized (map_of a ''alt_text_images'')"
    "absent_or is_number (map_of a ''aria_attributes'')" by (simp_all add: scorable_def)
  from accessibility_score_returns[OF this] obtain n6 where
    n6: "accessibility_score (VDict rs) (VDict a) = Inr n6" by blast
  have "\<exists>sc. compute_scores (VDict d') t = Inr sc"
    by (simp add: compute_scores_def py_getitem_def bind_def sb(3) b(1) sp(3) p(1) se m(2) a(2) rs(2)
          n1 n2 n3 n4 n5 n6)
  with fill r show ?thesis
    by (auto simp: auto_score_website_def is_dict_def bind_def)
qed

lemma seo_block_value:
  assumes "map_of m ''title'' = Some (VStr [])"
    and "map_of m ''description'' = Some (VStr desc)" "length desc = 100"
    and "map_of m ''viewport'' = Some (VBool True)"
    and "map_of m ''canonical'' = Some (VStr [])"
    and "map_of m ''og_tags'' = Some (VDict [])"
  shows "seo_score (VDict m) = Inr 4"
  using assms by (auto simp: seo_score_def py_get_def length_between_def bind_def)

text \<open>
  What holds of the SEO scenario on every record: with an empty title, a description of
  100 characters, a true viewport, an empty canonical URL and no open-graph tags,
  \<^verbatim>\<open>SEO & Visibility\<close> is 4 whenever the scorer returns, and it returns when the
  other fields are well typed.
\<close>

lemma seo_value_when_returned:
  assumes t: "field r ''meta'' ''title'' = Some (VStr [])"
    and de: "field r ''meta'' ''description'' = Some (VStr desc)" and len: "length desc = 100"
    and vp: "field r ''meta'' ''viewport'' = Some (VBool True)"
    and ca: "field r ''meta'' ''canonical'' = Some (VStr [])"
    and og: "field r ''meta'' ''og_tags'' = Some (VDict [])"
  shows "(\<forall>r' sc. auto_score_website now r response_text = Inr (r', sc) \<longrightarrow>
            map_of sc ''SEO & Visibility'' = Some 4) \<and>
         (scorable r \<longrightarrow> (\<exists>r' sc. auto_score_website now r response_text = Inr (r', sc)))"
proof (intro conjI allI impI)
  fix r' sc assume run: "auto_score_website now r response_text = Inr (r', sc)"
  from t obtain d m where r: "r = VDict d" and dm: "map_of d ''meta'' = Some (VDict m)"
    by (cases r) (auto simp: field_def split: option.splits pyval.splits)
  from run r obtain d' where
    fill: "each_section fill_keys required_sections d = Inr d'" and
    cs: "compute_scores (VDict d') response_text = Inr sc"
    by (auto simp: auto_score_website_def is_dict_def bind_def split: sum.splits)
  from each_section_result[OF fill required_sections_facts(1), of "''meta''" "[]"] dm
  have m': "map_of d' ''meta'' = Some (VDict m)"
    by (auto simp: required_sections_def section_of_simps)
  from t de vp ca og r dm have "seo_score (VDict m) = Inr 4"
    by (intro seo_block_value[OF _ _ len]) (simp_all add: field_def)
  with cs m' show "map_of sc ''SEO & Visibility'' = Some 4"
    by (auto simp: compute_scores_def py_getitem_def bind_def split: sum.splits option.splits)
next
  assume "scorable r"
  then show "\<exists>r' sc. auto_score_website now r response_text = Inr (r', sc)"
    by (rule score_returns)
qed

lemma seo_value_when_returned_example:
  "field scenario_record ''meta'' ''title'' = Some (VStr []) \<and>
   field scenario_record ''meta'' ''description'' = Some (VStr (replicate 100 CHR ''d'')) \<and>
   length (replicate 100 CHR ''d'') = 100 \<and>
   field scenario_record ''meta'' ''viewport'' = Some (VBool True) \<and>
   field scenario_record ''meta'' ''canonical'' = Some (VStr []) \<and>
   field scenario_record ''meta'' ''og_tags'' = Some (VDict []) \<and>
   scorable scenario_record \<and>
   (\<exists>r' sc. auto_score_website [] scenario_record NoText = Inr (r', sc) \<and>
      map_of sc ''SEO & Visibility'' = Some 4)"
proof -
  have f: "field scenario_record ''meta'' ''title'' = Some (VStr [])"
    "field scenario_record ''meta'' ''description'' = Some (VStr (replicate 100 CHR ''d''))"
    "field scenario_record ''meta'' ''viewport'' = Some (VBool True)"
    "field scenario_record ''meta'' ''canonical'' = Some (VStr [])"
    "field scenario_record ''meta'' ''og_tags'' = Some (VDict [])"
    by (simp_all add: field_def scenario_record_def scenario_meta_def)
  have l: "length (replicate 100 CHR ''d'') = 100" by simp
  have s: "scorable scenario_record"
    by (simp add: scorable_def record_shaped_def section_shaped_def defaults_def absent_or_def
          sized_or_false_def field_def scenario_record_def scenario_meta_def)
  from seo_value_when_returned[OF f(1,2) l f(3,4,5), of "[]" NoText] s f l show ?thesis by blast
qed

text \<open>
  Claim C8, at a record with the \<^verbatim>\<open>meta\<close> values of the scenario and
  \<^verbatim>\<open>basic.load_time\<close> bound to a string: the SEO block on this \<^verbatim>\<open>meta\<close> section
  gives 1 + 0 + 2 + 1 + 0 + 0 = 4, but the scorer never reaches it, because the
  comparison of the load time raises \<^verbatim>\<open>TypeError\<close> first, and no score is assigned.
\<close>

theorem seo_scenario_raises_on_string_load_time:
  "field scenario_record_string_load_time ''meta'' ''title'' = Some (VStr []) \<and>
   field scenario_record_string_load_time ''meta'' ''description'' =
     Some (VStr (replicate 100 CHR ''d'')) \<and>
   length (replicate 100 CHR ''d'') = 100 \<and>
   field scenario_record_string_load_time ''meta'' ''viewport'' = Some (VBool True) \<and>
   field scenario_record_string_load_time ''meta'' ''canonical'' = Some (VStr []) \<and>
   field scenario_record_string_load_time ''meta'' ''og_tags'' = Some (VDict []) \<and>
   seo_score (VDict scenario_meta) = Inr 4 \<and>
   auto_score_website now scenario_record_string_load_time response_text = Inl TypeError"
proof -
  have f: "field scenario_record_string_load_time ''meta'' ''title'' = Some (VStr [])"
    "field scenario_record_string_load_time ''meta'' ''description'' =
       Some (VStr (replicate 100 CHR ''d''))"
    "field scenario_record_string_load_time ''meta'' ''viewport'' = Some (VBool True)"
    "field scenario_record_string_load_time ''meta'' ''canonical'' = Some (VStr [])"
    "field scenario_record_string_load_time ''meta'' ''og_tags'' = Some (VDict [])"
    by (simp_all add: field_def scenario_record_string_load_time_def scenario_meta_def)
  have l: "length (replicate 100 CHR ''d'') = 100" by simp
  have seo: "seo_score (VDict scenario_meta) = Inr 4"
    by (rule seo_block_value[OF _ _ l]) (simp_all add: scenario_meta_def)
  have raises: "auto_score_website now scenario_record_string_load_time response_text = Inl TypeError"
    by (simp add: auto_score_website_def is_dict_def required_sections_def each_section.simps
          setdefault_def bind_def compute_scores_def py_getitem_def performance_score_def
          perf_score_def load_time_points_def py_lt_def scenario_record_string_load_time_def)
  from f l seo raises show ?thesis by simp
qed

subsection \<open>What every returned score set has\<close>

text \<open>
  Whatever the record, a score set that the scorer returns has the same seven keys, with
  \<^verbatim>\<open>Content Quality\<close> among them, so \<^verbatim>\<open>create_results_dataframe\<close> raises on
  it; and each of its scores lies between 1 and 5.
\<close>

lemma score_keys:
  "auto_score_website now r t = Inr (r', sc) \<Longrightarrow>
   map fst sc = [''Performance & Speed'', ''Security & Compliance'', ''SEO & Visibility'',
                 ''Mobile Responsiveness'', ''First Impressions & Branding'', ''Content Quality'',
                 ''Accessibility'']"
  by (cases "is_dict r")
     (auto simp: auto_score_website_def bind_def initialize_results_def
           split: sum.splits pyval.splits dest: compute_scores_keys)

lemma dataframe_needs_catalog:
  "c \<in> set (map fst sc) \<Longrightarrow> map_of CATEGORIES c = None \<Longrightarrow>
   \<exists>e. create_results_dataframe sc url = Inl e"
proof (induction sc)
  case Nil
  then show ?case by simp
next
  case (Cons a sc)
  obtain category score where a: "a = (category, score)" by (cases a)
  show ?case
  proof (cases "c = category")
    case True
    with Cons.prems(2) show ?thesis
      unfolding a by (simp add: recommendation_def bind_def)
  next
    case False
    with Cons.prems a have "c \<in> set (map fst sc)" by auto
    from Cons.IH[OF this Cons.prems(2)] show ?thesis
      unfolding a by (auto simp: bind_def split: sum.splits)
  qed
qed

lemma scored_record_never_rendered:
  assumes "auto_score_website now r t = Inr (r', sc)"
  shows "\<exists>e. create_results_dataframe sc url = Inl e"
proof -
  from score_keys[OF assms] have "''Content Quality'' \<in> set (map fst sc)" by simp
  moreover have "map_of CATEGORIES ''Content Quality'' = None" by (simp add: CATEGORIES_def)
  ultimately show ?thesis by (rule dataframe_needs_catalog)
qed

lemma alt_text_points_range: "alt_text_points tot alt = Inr n \<Longrightarrow> 0 \<le> n \<and> n \<le> 2"
  by (auto simp: alt_text_points_def bind_def split: sum.splits if_splits)

lemma performance_score_range: "performance_score basic perf = Inr n \<Longrightarrow> 1 \<le> n \<and> n \<le> 5"
  by (auto simp: performance_score_def bind_def split: sum.splits)

lemma security_score_range: "security_score security = Inr n \<Longrightarrow> 1 \<le> n \<and> n \<le> 5"
  by (auto simp: security_score_def bind_def split: sum.splits)

lemma seo_score_range: "seo_score meta = Inr n \<Longrightarrow> 1 \<le> n \<and> n \<le> 5"
  by (auto simp: seo_score_def bind_def split: sum.splits)

lemma mobile_score_range: "mobile_score meta resources = Inr n \<Longrightarrow> 1 \<le> n \<and> n \<le> 5"
  by (auto simp: mobile_score_def bind_def split: sum.splits)

lemma first_impressions_score_range: "first_impressions_score meta = Inr n \<Longrightarrow> 1 \<le> n \<and> n \<le> 5"
  by (auto simp: first_impressions_score_def bind_def split: sum.splits)

lemma content_score_range: "1 \<le> content_score t \<and> content_score t \<le> 5"
  by (simp add: content_score_def split: page_text.splits)

lemma accessibility_score_range:
  "accessibility_score resources accessibility = Inr n \<Longrightarrow> 1 \<le> n \<and> n \<le> 5"
  by (auto simp: accessibility_score_def bind_def split: sum.splits dest!: alt_text_points_range)

lemma compute_scores_range:
  assumes "compute_scores r t = Inr sc" "(c, s) \<in> set sc"
  shows "1 \<le> s \<and> s \<le> 5"
proof -
  from assms(1) obtain basic perf security meta accessibility resources n1 n2 n3 n4 n5 n6 where
    n: "performance_score basic perf = Inr n1" "security_score security = Inr n2"
       "seo_score meta = Inr n3" "mobile_score meta resources = Inr n4"
       "first_impressions_score meta = Inr n5"
       "accessibility_score resources accessibility = Inr n6" and
    sc: "sc = [(''Performance & Speed'', n1), (''Security & Compliance'', n2),
               (''SEO & Visibility'', n3), (''Mobile Responsiveness'', n4),
               (''First Impressions & Branding'', n5), (''Content Quality'', content_score t),
               (''Accessibility'', n6)]"
    unfolding compute_scores_def bind_def by (simp split: sum.splits)
  from assms(2) sc have "s \<in> {n1, n2, n3, n4, n5, content_score t, n6}" by auto
  with performance_score_range[OF n(1)] security_score_range[OF n(2)] seo_score_range[OF n(3)]
    mobile_score_range[OF n(4)] first_impressions_score_range[OF n(5)]
    accessibility_score_range[OF n(6)] content_score_range[of t]
  show ?thesis by auto
qed

lemma score_range:
  assumes "auto_score_website now r t = Inr (r', sc)" "(c, s) \<in> set sc"
  shows "1 \<le> s \<and> s \<le> 5"
proof -
  from assms(1) obtain d where "compute_scores (VDict d) t = Inr sc"
    by (auto simp: auto_score_website_def bind_def split: sum.splits pyval.splits)
  from compute_scores_range[OF this assms(2)] show ?thesis .
qed

section \<open>Properties of the scan\<close>

lemmas scan_defs =
  scan_website_def required_keys_def initialize_results_def setdefault_def append_issue_def
  set_field_def final_validation_def scan_error_def

text \<open>
  Claim C3. When the URL passes the validation in \<^verbatim>\<open>scan_website\<close> and the
  transport raises a request exception, the scan requests that URL once and returns
  status \<^verbatim>\<open>success\<close> with a page size of 0.0, the measured load time, and the
  failure as the one entry of \<^verbatim>\<open>issues\<close>.
\<close>

theorem scan_website_fetch_failure:
  assumes "validate_url (check_bracketed_host w) url = Inr v"
    and "session_get w v = RequestException msg"
  shows "\<exists>results. scan_website w url = ([v], Success results) \<and>
           field results ''performance'' ''page_size_kb'' = Some (VFloat (Finite 0)) \<and>
           field results ''basic'' ''load_time'' = Some (VFloat (elapsed w)) \<and>
           top_level results ''issues'' = Some (VList [VStr (''Request failed: '' @ msg)])"
  using assms by (simp add: scan_defs field_def top_level_def)

theorem scan_website_fetch_failure_witness:
  "validate_url (check_bracketed_host timeout_world) (VStr ''example.com'') = Inr ''https://example.com'' \<and>
   session_get timeout_world ''https://example.com'' = RequestException ''timed out'' \<and>
   (\<exists>results. scan_website timeout_world (VStr ''example.com'') = ([''https://example.com''], Success results) \<and>
      field results ''performance'' ''page_size_kb'' = Some (VFloat (Finite 0)) \<and>
      field results ''basic'' ''load_time'' = Some (VFloat (Finite 20)) \<and>
      top_level results ''issues'' = Some (VList [VStr ''Request failed: timed out'']))"
proof -
  have v: "validate_url (check_bracketed_host timeout_world) (VStr ''example.com'') = Inr ''https://example.com''"
    by (simp add: validate_defs timeout_world_def)
  have g: "session_get timeout_world ''https://example.com'' = RequestException ''timed out''"
    by (simp add: timeout_world_def)
  have e: "elapsed timeout_world = Finite 20" by (simp add: timeout_world_def)
  from scan_website_fetch_failure[OF v g] v g e show ?thesis by simp
qed

section \<open>Properties of the route handler\<close>

text \<open>
  A POST request never gets the results page: each path through the handler ends in an
  exception, the last of them the \<^verbatim>\<open>KeyError\<close> of the report rows.
\<close>

lemma index_chain_fails:
  "\<exists>e. bind (ensure_defaults x) (\<lambda>scan_data.
          bind (restore_page_size scan_data) (\<lambda>scan_data1.
          bind (auto_score_website now scan_data1 NoText) (\<lambda>(scan_data2, scores).
          bind (create_results_dataframe scores v) (\<lambda>df.
          Inr (ResultsPage v scores scan_data2))))) = Inl e"
proof (cases "ensure_defaults x")
  case (Inl e)
  then show ?thesis by (simp add: bind_def)
next
  case sd: (Inr scan_data)
  show ?thesis
  proof (cases "restore_page_size scan_data")
    case (Inl e)
    with sd show ?thesis by (simp add: bind_def)
  next
    case sd1: (Inr scan_data1)
    show ?thesis
    proof (cases "auto_score_website now scan_data1 NoText")
      case (Inl e)
      with sd sd1 show ?thesis by (simp add: bind_def)
    next
      case (Inr p)
      obtain scan_data2 scores where p: "p = (scan_data2, scores)" by (cases p)
      from scored_record_never_rendered[OF Inr[unfolded p], of v] obtain e where
        "create_results_dataframe scores v = Inl e" by blast
      with sd sd1 Inr p show ?thesis by (simp add: bind_def)
    qed
  qed
qed

lemma index_post_never_results: "\<exists>msg. snd (index_post w u) = IndexPage msg"
proof (cases "strip u = []")
  case True
  then show ?thesis by (simp add: index_post_def)
next
  case False
  show ?thesis
  proof (cases "validate_url (check_bracketed_host w) (VStr (strip u))")
    case (Inl e)
    with False show ?thesis by (simp add: index_post_def)
  next
    case (Inr v)
    obtain requested res where sw: "scan_website w (VStr v) = (requested, res)"
      by (cases "scan_website w (VStr v)")
    from index_chain_fails[of "data_of res" "timestamp w" v] obtain e where
      "bind (ensure_defaults (data_of res)) (\<lambda>scan_data.
          bind (restore_page_size scan_data) (\<lambda>scan_data1.
          bind (auto_score_website (timestamp w) scan_data1 NoText) (\<lambda>(scan_data2, scores).
          bind (create_results_dataframe scores v) (\<lambda>df.
          Inr (ResultsPage v scores scan_data2))))) = Inl e" by blast
    with False Inr sw show ?thesis by (simp add: index_post_def)
  qed
qed

end
